theory Spec2Isabelle
  imports Main
begin

section \<open>String helpers of the Go standard library\<close>

text \<open>
  Go strings are byte sequences; they are modelled as \<open>string\<close> (a list of \<open>char\<close>).
  The helpers below follow the documented behaviour of package \<open>strings\<close> for the
  calls the controller makes.
\<close>

definition strings_HasPrefix :: "string \<Rightarrow> string \<Rightarrow> bool" where
  "strings_HasPrefix s p = (take (length p) s = p)"

definition strings_HasSuffix :: "string \<Rightarrow> string \<Rightarrow> bool" where
  "strings_HasSuffix s x = (length x \<le> length s \<and> drop (length s - length x) s = x)"

definition strings_TrimPrefix :: "string \<Rightarrow> string \<Rightarrow> string" where
  "strings_TrimPrefix s p = (if strings_HasPrefix s p then drop (length p) s else s)"

fun strings_Contains :: "string \<Rightarrow> string \<Rightarrow> bool" where
  "strings_Contains [] sub = (sub = [])"
| "strings_Contains (c # cs) sub =
     (strings_HasPrefix (c # cs) sub \<or> strings_Contains cs sub)"

fun strings_Join :: "string list \<Rightarrow> string \<Rightarrow> string" where
  "strings_Join [] sep = []"
| "strings_Join [x] sep = x"
| "strings_Join (x # y # ys) sep = x @ sep @ strings_Join (y # ys) sep"

text \<open>
  \<open>strings.Split(s, sep)\<close> for a non-empty separator: the pieces between the leftmost,
  non-overlapping occurrences of \<open>sep\<close>; a string without the separator is one piece.
  \<open>split_from sep acc s\<close> scans \<open>s\<close> with the piece read so far in \<open>acc\<close>.
\<close>

fun split_from :: "string \<Rightarrow> string \<Rightarrow> string \<Rightarrow> string list" where
  "split_from sep acc [] = [acc]"
| "split_from sep acc (c # cs) =
     (if sep \<noteq> [] \<and> strings_HasPrefix (c # cs) sep
      then acc # split_from sep [] (drop (length sep) (c # cs))
      else split_from sep (acc @ [c]) cs)"

definition strings_Split :: "string \<Rightarrow> string \<Rightarrow> string list" where
  "strings_Split s sep = (if sep = [] then map (\<lambda>c. [c]) s else split_from sep [] s)"

text \<open>
  \<open>strings.NewReplacer(old1, new1, ...).Replace(s)\<close> when every old and new string is a
  single byte: each byte of \<open>s\<close> that is an old byte is replaced, the first pair winning.
\<close>

definition Replacer_Replace :: "(char \<times> char) list \<Rightarrow> string \<Rightarrow> string" where
  "Replacer_Replace oldnew s = map (\<lambda>c. case map_of oldnew c of Some n \<Rightarrow> n | None \<Rightarrow> c) s"

section \<open>Errors\<close>

text \<open>
  A Go \<open>error\<close> is an \<open>error option\<close> (\<open>None\<close> is \<open>nil\<close>).  \<open>ErrRequeue\<close> is the
  package's sentinel \<open>errRequeue\<close>; \<open>NotFound\<close>, \<open>AlreadyExists\<close> and \<open>ApiError\<close> are the
  answers of the API server; the others are the errors the controller builds itself.
  \<open>TypeAssertionPanic\<close> stands for the panic of a failed type assertion.
\<close>

datatype error =
    ErrRequeue
  | NotFound
  | AlreadyExists
  | ApiError string
  | UrlParseError string
  | InvalidChartRepositoryURL string
  | InvalidImageReference string
  | UnsupportedKind string
  | OwnerReferenceError string
  | TypeAssertionPanic

definition errors_Is_errRequeue :: "error \<Rightarrow> bool" where
  "errors_Is_errRequeue err = (err = ErrRequeue)"

definition IgnoreNotFound :: "error \<Rightarrow> error option" where
  "IgnoreNotFound err = (if err = NotFound then None else Some err)"

section \<open>Library functions taken as parameters\<close>

text \<open>
  \<open>url.Parse\<close>, \<open>path.Dir\<close> and \<open>path.Base\<close> belong to the Go standard library, not to
  this repository.  The controller is modelled for any behaviour of the three: they are
  the fields of a record handed to every function that calls them.  Of a parsed URL the
  controller reads the host only.
\<close>

record URL =
  Scheme :: string
  Host :: string

record golib =
  url_Parse :: "string \<Rightarrow> error + URL"
  path_Dir :: "string \<Rightarrow> string"
  path_Base :: "string \<Rightarrow> string"

text \<open>
  A concrete library for evaluating the model on plain locators.  It agrees with the Go
  functions on inputs of the shape \<open>scheme://host/seg/.../seg\<close> (alphabetic scheme; no
  user info, port, query, fragment, escape or control byte; no empty, \<open>.\<close> or \<open>..\<close>
  segment) and on the slash-separated image names \<open>host/seg/.../seg\<close> cut from them.
\<close>

definition plain_url_Parse :: "string \<Rightarrow> error + URL" where
  "plain_url_Parse s =
     (case strings_Split s ''://'' of
        [sch, rest] \<Rightarrow> Inr \<lparr>Scheme = sch, Host = takeWhile (\<lambda>c. c \<noteq> CHR ''/'') rest\<rparr>
      | _ \<Rightarrow> Inr \<lparr>Scheme = [], Host = []\<rparr>)"

definition plain_path_Base :: "string \<Rightarrow> string" where
  "plain_path_Base p =
     (if p = [] then ''.''
      else let q = rev (dropWhile (\<lambda>c. c = CHR ''/'') (rev p));
               b = rev (takeWhile (\<lambda>c. c \<noteq> CHR ''/'') (rev q))
           in if b = [] then ''/'' else b)"

definition plain_path_Dir :: "string \<Rightarrow> string" where
  "plain_path_Dir p =
     (let d = rev (dropWhile (\<lambda>c. c \<noteq> CHR ''/'') (rev p));
          e = rev (dropWhile (\<lambda>c. c = CHR ''/'') (rev d))
      in if d = [] then ''.'' else if e = [] then ''/'' else e)"

definition plainlib :: golib where
  "plainlib = \<lparr>url_Parse = plain_url_Parse, path_Dir = plain_path_Dir, path_Base = plain_path_Base\<rparr>"

section \<open>Data model\<close>

subsection \<open>Object metadata and owner references\<close>

record OwnerReference =
  ref_Kind :: string
  ref_Name :: string
  ref_UID :: string
  ref_Controller :: bool
  ref_BlockOwnerDeletion :: bool

record ObjectMeta =
  Name :: string
  Namespace :: string
  UID :: string
  DeletionTimestamp :: "nat option"
  Finalizers :: "string list"
  OwnerReferences :: "OwnerReference list"

definition empty_meta :: ObjectMeta where
  "empty_meta = \<lparr>Name = [], Namespace = [], UID = [], DeletionTimestamp = None,
                 Finalizers = [], OwnerReferences = []\<rparr>"

record Condition =
  cond_Type :: string
  cond_Status :: string
  cond_Reason :: string
  cond_Message :: string

subsection \<open>The parent resource (api/v1, \<open>FluxApp\<close>)\<close>

record Chart =
  Repository :: string
  Version :: string

record FluxAppSpec =
  spec_Chart :: Chart
  TargetNamespace :: string

record ChartStatus =
  st_Repository :: string
  st_Name :: string
  st_Version :: string

record FluxAppStatus =
  status_Chart :: ChartStatus
  Conditions :: "Condition list"

record FluxApp =
  app_Meta :: ObjectMeta
  Spec :: FluxAppSpec
  Status :: FluxAppStatus

subsection \<open>The four child kinds\<close>

record ImageRepositorySpec =
  Image :: string
  ir_Interval :: nat
  ir_Provider :: string

record ImageRepositoryStatus =
  CanonicalImageName :: string

record ImageRepository =
  ir_Meta :: ObjectMeta
  ir_Spec :: ImageRepositorySpec
  ir_Status :: ImageRepositoryStatus

record ImagePolicySpec =
  ImageRepositoryRef :: "string \<times> string"
  SemVerRange :: string

record ImagePolicyStatus =
  LatestImage :: string

record ImagePolicy =
  ip_Meta :: ObjectMeta
  ip_Spec :: ImagePolicySpec
  ip_Status :: ImagePolicyStatus

record HelmRepositorySpec =
  URL_of :: string
  Type_of :: string
  hr_Provider :: string

record HelmRepository =
  hrepo_Meta :: ObjectMeta
  hrepo_Spec :: HelmRepositorySpec

record HelmReleaseSpec =
  chart_Chart :: string
  chart_Version :: string
  chart_SourceRef :: "string \<times> string \<times> string"
  hrel_Interval :: nat
  ReleaseName :: string
  hrel_TargetNamespace :: string
  DriftDetectionMode :: string
  DriftDetectionIgnore :: "string list list"
  InstallReplace :: bool
  InstallCRDs :: string
  InstallCreateNamespace :: bool
  UpgradeCRDs :: string

record HelmReleaseStatus =
  hrel_Conditions :: "Condition list"

record HelmRelease =
  hrel_Meta :: ObjectMeta
  hrel_Spec :: HelmReleaseSpec
  hrel_Status :: HelmReleaseStatus

text \<open>\<open>client.Object\<close>: one of the four typed objects.\<close>

datatype Object =
    ImageRepositoryObj ImageRepository
  | ImagePolicyObj ImagePolicy
  | HelmRepositoryObj HelmRepository
  | HelmReleaseObj HelmRelease

definition ImageRepositoryKind :: string where "ImageRepositoryKind = ''ImageRepository''"
definition ImagePolicyKind :: string where "ImagePolicyKind = ''ImagePolicy''"
definition HelmRepositoryKind :: string where "HelmRepositoryKind = ''HelmRepository''"
definition HelmReleaseKind :: string where "HelmReleaseKind = ''HelmRelease''"

fun kind_of :: "Object \<Rightarrow> string" where
  "kind_of (ImageRepositoryObj _) = ImageRepositoryKind"
| "kind_of (ImagePolicyObj _) = ImagePolicyKind"
| "kind_of (HelmRepositoryObj _) = HelmRepositoryKind"
| "kind_of (HelmReleaseObj _) = HelmReleaseKind"

fun meta_of :: "Object \<Rightarrow> ObjectMeta" where
  "meta_of (ImageRepositoryObj x) = ir_Meta x"
| "meta_of (ImagePolicyObj x) = ip_Meta x"
| "meta_of (HelmRepositoryObj x) = hrepo_Meta x"
| "meta_of (HelmReleaseObj x) = hrel_Meta x"

fun set_meta :: "Object \<Rightarrow> ObjectMeta \<Rightarrow> Object" where
  "set_meta (ImageRepositoryObj x) m = ImageRepositoryObj (x\<lparr>ir_Meta := m\<rparr>)"
| "set_meta (ImagePolicyObj x) m = ImagePolicyObj (x\<lparr>ip_Meta := m\<rparr>)"
| "set_meta (HelmRepositoryObj x) m = HelmRepositoryObj (x\<lparr>hrepo_Meta := m\<rparr>)"
| "set_meta (HelmReleaseObj x) m = HelmReleaseObj (x\<lparr>hrel_Meta := m\<rparr>)"

definition SetName :: "Object \<Rightarrow> string \<Rightarrow> Object" where
  "SetName obj n = set_meta obj ((meta_of obj)\<lparr>Name := n\<rparr>)"

definition SetNamespace :: "Object \<Rightarrow> string \<Rightarrow> Object" where
  "SetNamespace obj n = set_meta obj ((meta_of obj)\<lparr>Namespace := n\<rparr>)"

section \<open>NamingPolicy (fluxapp_resource_manager.go)\<close>

definition ImageRepositoryName :: "FluxApp \<Rightarrow> string" where
  "ImageRepositoryName app = strings_Join [Name (app_Meta app), ''chart''] ''-''"

definition ImagePolicyName :: "FluxApp \<Rightarrow> string" where
  "ImagePolicyName app = ImageRepositoryName app"

definition HelmRepositoryName :: "FluxApp \<Rightarrow> string" where
  "HelmRepositoryName app =
     Replacer_Replace [(CHR ''.'', CHR ''-''), (CHR ''/'', CHR ''-'')]
       (strings_TrimPrefix (st_Repository (status_Chart (Status app))) ''oci://'')"

definition HelmReleaseName :: "FluxApp \<Rightarrow> string" where
  "HelmReleaseName app = Name (app_Meta app)"

section \<open>Provider inference (fluxapp_controller.go, \<open>providerFromURL\<close>)\<close>

definition providerFromURL :: "golib \<Rightarrow> string \<Rightarrow> error + string" where
  "providerFromURL lib s =
     (case url_Parse lib s of
        Inl err \<Rightarrow> Inl err
      | Inr u \<Rightarrow>
          Inr (if strings_Contains (Host u) ''amazonaws.com'' then ''aws''
               else if strings_Contains (Host u) ''azurecr.io'' then ''azure''
               else if strings_Contains (Host u) ''gcr.io'' then ''gcp''
               else ''generic''))"

section \<open>The cluster: the external object store behind \<open>client.Client\<close>\<close>

text \<open>
  The API server is an explicit state.  Each kind has its own table, keyed by namespace
  and name, so a lookup of one kind cannot return an object of another.  \<open>trace\<close>
  records every request the controller sends, in order; \<open>faults\<close> lets any request
  fail with an API error (conflict, timeout, admission failure, ...).
\<close>

type_synonym NamespacedName = "string \<times> string"

datatype Call =
    GetCall string NamespacedName
  | CreateCall Object
  | PatchCall Object Object
  | GetAppCall NamespacedName
  | UpdateAppCall FluxApp
  | PatchStatusCall FluxApp FluxApp

record Cluster =
  imageRepositories :: "NamespacedName \<rightharpoonup> ImageRepository"
  imagePolicies :: "NamespacedName \<rightharpoonup> ImagePolicy"
  helmRepositories :: "NamespacedName \<rightharpoonup> HelmRepository"
  helmReleases :: "NamespacedName \<rightharpoonup> HelmRelease"
  fluxApps :: "NamespacedName \<rightharpoonup> FluxApp"
  faults :: "Call \<Rightarrow> string option"
  trace :: "Call list"

definition key_of :: "Object \<Rightarrow> NamespacedName" where
  "key_of obj = (Namespace (meta_of obj), Name (meta_of obj))"

fun lookup :: "Cluster \<Rightarrow> Object \<Rightarrow> NamespacedName \<Rightarrow> Object option" where
  "lookup w (ImageRepositoryObj _) key = map_option ImageRepositoryObj (imageRepositories w key)"
| "lookup w (ImagePolicyObj _) key = map_option ImagePolicyObj (imagePolicies w key)"
| "lookup w (HelmRepositoryObj _) key = map_option HelmRepositoryObj (helmRepositories w key)"
| "lookup w (HelmReleaseObj _) key = map_option HelmReleaseObj (helmReleases w key)"

fun store :: "Cluster \<Rightarrow> Object \<Rightarrow> Cluster" where
  "store w (ImageRepositoryObj x) =
     w\<lparr>imageRepositories := (imageRepositories w)(key_of (ImageRepositoryObj x) \<mapsto> x)\<rparr>"
| "store w (ImagePolicyObj x) =
     w\<lparr>imagePolicies := (imagePolicies w)(key_of (ImagePolicyObj x) \<mapsto> x)\<rparr>"
| "store w (HelmRepositoryObj x) =
     w\<lparr>helmRepositories := (helmRepositories w)(key_of (HelmRepositoryObj x) \<mapsto> x)\<rparr>"
| "store w (HelmReleaseObj x) =
     w\<lparr>helmReleases := (helmReleases w)(key_of (HelmReleaseObj x) \<mapsto> x)\<rparr>"

definition sent :: "Cluster \<Rightarrow> Call \<Rightarrow> Cluster" where
  "sent w c = w\<lparr>trace := trace w @ [c]\<rparr>"

text \<open>
  \<open>client.Get(ctx, key, obj)\<close> fills \<open>obj\<close> on success and leaves it as it was on
  failure; the model returns the (possibly filled) object beside the error.
\<close>

definition client_Get :: "Cluster \<Rightarrow> NamespacedName \<Rightarrow> Object \<Rightarrow> Cluster \<times> error option \<times> Object" where
  "client_Get w key obj =
     (let c = GetCall (kind_of obj) key in
      case faults w c of
        Some m \<Rightarrow> (sent w c, Some (ApiError m), obj)
      | None \<Rightarrow>
          (case lookup w obj key of
             None \<Rightarrow> (sent w c, Some NotFound, obj)
           | Some found \<Rightarrow> (sent w c, None, found)))"

definition client_Create :: "Cluster \<Rightarrow> Object \<Rightarrow> Cluster \<times> error option" where
  "client_Create w obj =
     (let c = CreateCall obj in
      case faults w c of
        Some m \<Rightarrow> (sent w c, Some (ApiError m))
      | None \<Rightarrow>
          (case lookup w obj (key_of obj) of
             Some _ \<Rightarrow> (sent w c, Some AlreadyExists)
           | None \<Rightarrow> (store (sent w c) obj, None)))"

text \<open>
  \<open>client.Patch(ctx, obj, client.MergeFrom(base))\<close> sends the difference between
  \<open>base\<close> and \<open>obj\<close>.  No other writer runs between a fetch and its patch in this
  sequential model, so the stored object is \<open>base\<close> and the patched one is \<open>obj\<close>.
\<close>

definition client_Patch :: "Cluster \<Rightarrow> Object \<Rightarrow> Object \<Rightarrow> Cluster \<times> error option" where
  "client_Patch w obj base =
     (let c = PatchCall obj base in
      case faults w c of
        Some m \<Rightarrow> (sent w c, Some (ApiError m))
      | None \<Rightarrow>
          (case lookup w obj (key_of obj) of
             None \<Rightarrow> (sent w c, Some NotFound)
           | Some _ \<Rightarrow> (store (sent w c) obj, None)))"

text \<open>The parent: fetch, update (metadata and spec) and patch of the status subresource.\<close>

definition r_Get :: "Cluster \<Rightarrow> NamespacedName \<Rightarrow> Cluster \<times> (error + FluxApp)" where
  "r_Get w req =
     (let c = GetAppCall req in
      case faults w c of
        Some m \<Rightarrow> (sent w c, Inl (ApiError m))
      | None \<Rightarrow>
          (case fluxApps w req of
             None \<Rightarrow> (sent w c, Inl NotFound)
           | Some app \<Rightarrow> (sent w c, Inr app)))"

definition app_key :: "FluxApp \<Rightarrow> NamespacedName" where
  "app_key app = (Namespace (app_Meta app), Name (app_Meta app))"

definition r_Update :: "Cluster \<Rightarrow> FluxApp \<Rightarrow> Cluster \<times> error option" where
  "r_Update w app =
     (let c = UpdateAppCall app in
      case faults w c of
        Some m \<Rightarrow> (sent w c, Some (ApiError m))
      | None \<Rightarrow>
          (case fluxApps w (app_key app) of
             None \<Rightarrow> (sent w c, Some NotFound)
           | Some old \<Rightarrow>
               (if DeletionTimestamp (app_Meta app) \<noteq> None \<and> Finalizers (app_Meta app) = []
                then ((sent w c)\<lparr>fluxApps := (fluxApps w)(app_key app := None)\<rparr>, None)
                else ((sent w c)\<lparr>fluxApps := (fluxApps w)(app_key app \<mapsto> app\<lparr>Status := Status old\<rparr>)\<rparr>,
                      None))))"

definition r_Status_Patch :: "Cluster \<Rightarrow> FluxApp \<Rightarrow> FluxApp \<Rightarrow> Cluster \<times> error option" where
  "r_Status_Patch w app base =
     (let c = PatchStatusCall app base in
      case faults w c of
        Some m \<Rightarrow> (sent w c, Some (ApiError m))
      | None \<Rightarrow>
          (case fluxApps w (app_key app) of
             None \<Rightarrow> (sent w c, Some NotFound)
           | Some old \<Rightarrow>
               ((sent w c)\<lparr>fluxApps := (fluxApps w)(app_key app \<mapsto> old\<lparr>Status := Status app\<rparr>)\<rparr>,
                None)))"

section \<open>Finalizers and controller references (controllerutil)\<close>

definition finalizer :: string where
  "finalizer = ''apps.kloudy.uk/finalizer''"

definition ContainsFinalizer :: "FluxApp \<Rightarrow> string \<Rightarrow> bool" where
  "ContainsFinalizer app f = (f \<in> set (Finalizers (app_Meta app)))"

definition AddFinalizer :: "FluxApp \<Rightarrow> string \<Rightarrow> FluxApp" where
  "AddFinalizer app f =
     (if f \<in> set (Finalizers (app_Meta app)) then app
      else app\<lparr>app_Meta := (app_Meta app)\<lparr>Finalizers := Finalizers (app_Meta app) @ [f]\<rparr>\<rparr>)"

definition RemoveFinalizer :: "FluxApp \<Rightarrow> string \<Rightarrow> FluxApp" where
  "RemoveFinalizer app f =
     app\<lparr>app_Meta := (app_Meta app)\<lparr>Finalizers := filter (\<lambda>g. g \<noteq> f) (Finalizers (app_Meta app))\<rparr>\<rparr>"

text \<open>
  \<open>controllerutil.SetControllerReference(owner, controlled, scheme)\<close>: the owner's kind
  must be registered in the scheme, owner and object must agree on the namespace, and
  the object must not have another controller; then the reference is added or replaced.
  A scheme is the list of the kinds registered in it.
\<close>

definition FluxAppKind :: string where
  "FluxAppKind = ''FluxApp''"

definition controller_ref :: "FluxApp \<Rightarrow> OwnerReference" where
  "controller_ref app =
     \<lparr>ref_Kind = FluxAppKind, ref_Name = Name (app_Meta app), ref_UID = UID (app_Meta app),
      ref_Controller = True, ref_BlockOwnerDeletion = True\<rparr>"

definition referSameObject :: "OwnerReference \<Rightarrow> OwnerReference \<Rightarrow> bool" where
  "referSameObject a b = (ref_Kind a = ref_Kind b \<and> ref_Name a = ref_Name b)"

definition validateOwner :: "ObjectMeta \<Rightarrow> ObjectMeta \<Rightarrow> error option" where
  "validateOwner owner obj =
     (if Namespace owner \<noteq> [] then
        (if Namespace obj = []
         then Some (OwnerReferenceError ''cluster-scoped resource must not have a namespace-scoped owner'')
         else if Namespace owner \<noteq> Namespace obj
         then Some (OwnerReferenceError ''cross-namespace owner references are disallowed'')
         else None)
      else None)"

definition validateControllerRef :: "OwnerReference \<Rightarrow> ObjectMeta \<Rightarrow> error option" where
  "validateControllerRef ref obj =
     (case find ref_Controller (OwnerReferences obj) of
        Some existing \<Rightarrow>
          (if referSameObject existing ref then None
           else Some (OwnerReferenceError ''object is already owned by another controller''))
      | None \<Rightarrow> None)"

fun upsertOwnerRef :: "OwnerReference \<Rightarrow> OwnerReference list \<Rightarrow> OwnerReference list" where
  "upsertOwnerRef ref [] = [ref]"
| "upsertOwnerRef ref (r # rs) =
     (if referSameObject r ref then ref # rs else r # upsertOwnerRef ref rs)"

definition SetControllerReference :: "FluxApp \<Rightarrow> Object \<Rightarrow> string list \<Rightarrow> error + Object" where
  "SetControllerReference owner controlled scheme =
     (case validateOwner (app_Meta owner) (meta_of controlled) of
        Some err \<Rightarrow> Inl err
      | None \<Rightarrow>
          (if FluxAppKind \<notin> set scheme
           then Inl (OwnerReferenceError ''no kind is registered for the owner type'')
           else
             (case validateControllerRef (controller_ref owner) (meta_of controlled) of
                Some err \<Rightarrow> Inl err
              | None \<Rightarrow>
                  Inr (set_meta controlled
                        ((meta_of controlled)
                           \<lparr>OwnerReferences :=
                              upsertOwnerRef (controller_ref owner)
                                (OwnerReferences (meta_of controlled))\<rparr>)))))"

text \<open>The object carries a controller reference to the parent.\<close>

definition controlled_by :: "Object \<Rightarrow> FluxApp \<Rightarrow> bool" where
  "controlled_by obj app = (controller_ref app \<in> set (OwnerReferences (meta_of obj)))"

section \<open>ResourceManager (fluxapp_resource_manager.go)\<close>

text \<open>
  \<open>managedResource\<close>: the object and the patch made from its snapshot, \<open>None\<close> when
  the object was not found.  \<open>client.MergeFrom(o.DeepCopy())\<close> is the copied object.
\<close>

record managedResource =
  mr_Object :: Object
  mr_patch :: "Object option"

record ResourceManager =
  rm_scheme :: "string list"

definition empty_ImageRepository :: ImageRepository where
  "empty_ImageRepository =
     \<lparr>ir_Meta = empty_meta, ir_Spec = \<lparr>Image = [], ir_Interval = 0, ir_Provider = []\<rparr>,
      ir_Status = \<lparr>CanonicalImageName = []\<rparr>\<rparr>"

definition empty_ImagePolicy :: ImagePolicy where
  "empty_ImagePolicy =
     \<lparr>ip_Meta = empty_meta, ip_Spec = \<lparr>ImageRepositoryRef = ([], []), SemVerRange = []\<rparr>,
      ip_Status = \<lparr>LatestImage = []\<rparr>\<rparr>"

definition empty_HelmRepository :: HelmRepository where
  "empty_HelmRepository =
     \<lparr>hrepo_Meta = empty_meta, hrepo_Spec = \<lparr>URL_of = [], Type_of = [], hr_Provider = []\<rparr>\<rparr>"

definition empty_HelmRelease :: HelmRelease where
  "empty_HelmRelease =
     \<lparr>hrel_Meta = empty_meta,
      hrel_Spec = \<lparr>chart_Chart = [], chart_Version = [], chart_SourceRef = ([], [], []),
                   hrel_Interval = 0, ReleaseName = [], hrel_TargetNamespace = [],
                   DriftDetectionMode = [], DriftDetectionIgnore = [], InstallReplace = False,
                   InstallCRDs = [], InstallCreateNamespace = False, UpgradeCRDs = []\<rparr>,
      hrel_Status = \<lparr>hrel_Conditions = []\<rparr>\<rparr>"

definition Update :: "ResourceManager \<Rightarrow> Cluster \<Rightarrow> managedResource \<Rightarrow> Cluster \<times> error option" where
  "Update rm w res =
     (case mr_patch res of
        None \<Rightarrow> client_Create w (mr_Object res)
      | Some base \<Rightarrow> client_Patch w (mr_Object res) base)"

text \<open>
  The first \<open>switch\<close> of \<open>Get\<close>: the empty object of the kind and the name of its key.
\<close>

definition init_for_kind :: "FluxApp \<Rightarrow> string \<Rightarrow> (Object \<times> string) option" where
  "init_for_kind app kind =
     (if kind = ImageRepositoryKind
        then Some (ImageRepositoryObj empty_ImageRepository, ImageRepositoryName app)
      else if kind = ImagePolicyKind
        then Some (ImagePolicyObj empty_ImagePolicy, ImagePolicyName app)
      else if kind = HelmRepositoryKind
        then Some (HelmRepositoryObj empty_HelmRepository, HelmRepositoryName app)
      else if kind = HelmReleaseKind
        then Some (HelmReleaseObj empty_HelmRelease, HelmReleaseName app)
      else None)"

text \<open>
  The second \<open>switch\<close> of \<open>Get\<close>, on the type of the fetched object, has one case for
  each of the four types and a default that no \<open>Object\<close> reaches; every case stores
  the copy of the object as the patch.
\<close>

definition Get :: "ResourceManager \<Rightarrow> Cluster \<Rightarrow> FluxApp \<Rightarrow> string \<Rightarrow> Cluster \<times> (error + managedResource)" where
  "Get rm w app kind =
     (case init_for_kind app kind of
        None \<Rightarrow> (w, Inl (UnsupportedKind kind))
      | Some (obj0, name) \<Rightarrow>
          (let key = (Namespace (app_Meta app), name) in
           case client_Get w key obj0 of
             (w1, Some err, obj) \<Rightarrow>
               (case IgnoreNotFound err of
                  Some err' \<Rightarrow> (w1, Inl err')
                | None \<Rightarrow>
                    (case SetControllerReference app
                            (SetNamespace (SetName obj (snd key)) (fst key)) (rm_scheme rm) of
                       Inl err' \<Rightarrow> (w1, Inl err')
                     | Inr obj' \<Rightarrow> (w1, Inr \<lparr>mr_Object = obj', mr_patch = None\<rparr>)))
           | (w1, None, obj) \<Rightarrow> (w1, Inr \<lparr>mr_Object = obj, mr_patch = Some obj\<rparr>)))"

section \<open>Condition mirroring (fluxcd/pkg/runtime/conditions)\<close>

text \<open>
  \<open>conditions.SetMirror(to, target, from, WithFallbackValue(v, reason, message))\<close>:
  the \<open>Ready\<close> condition of \<open>from\<close>, or the fallback when there is none, is retyped to
  \<open>target\<close> and set on \<open>to\<close>; with neither, \<open>to\<close> is left as it is.  Transition
  times and the final sort of the list (presentation only) are not modelled.
\<close>

definition ReadyCondition :: string where
  "ReadyCondition = ''Ready''"

definition ProgressingReason :: string where
  "ProgressingReason = ''Progressing''"

definition conditions_Get :: "Condition list \<Rightarrow> string \<Rightarrow> Condition option" where
  "conditions_Get conds t = find (\<lambda>c. cond_Type c = t) conds"

fun replace_first :: "Condition \<Rightarrow> Condition list \<Rightarrow> Condition list" where
  "replace_first c [] = []"
| "replace_first c (e # es) =
     (if cond_Type e = cond_Type c then c # es else e # replace_first c es)"

definition conditions_Set :: "Condition list \<Rightarrow> Condition option \<Rightarrow> Condition list" where
  "conditions_Set conds condition =
     (case condition of
        None \<Rightarrow> conds
      | Some c \<Rightarrow>
          (if \<exists>e \<in> set conds. cond_Type e = cond_Type c
           then replace_first c conds else conds @ [c]))"

definition mirror :: "Condition list \<Rightarrow> string \<Rightarrow> (bool \<times> string \<times> string) option \<Rightarrow> Condition option" where
  "mirror from_conds targetCondition fallback =
     (let condition =
            (case (conditions_Get from_conds ReadyCondition, fallback) of
               (None, Some (v, reason, message)) \<Rightarrow>
                 Some \<lparr>cond_Type = targetCondition,
                       cond_Status = (if v then ''True'' else ''False''),
                       cond_Reason = reason, cond_Message = message\<rparr>
             | (c, _) \<Rightarrow> c)
      in map_option (\<lambda>c. c\<lparr>cond_Type := targetCondition\<rparr>) condition)"

definition SetMirror :: "FluxApp \<Rightarrow> string \<Rightarrow> Condition list \<Rightarrow> (bool \<times> string \<times> string) option \<Rightarrow> FluxApp" where
  "SetMirror to targetCondition from_conds fallback =
     to\<lparr>Status := (Status to)
           \<lparr>Conditions := conditions_Set (Conditions (Status to))
                             (mirror from_conds targetCondition fallback)\<rparr>\<rparr>"

section \<open>The four stages (fluxapp_controller.go)\<close>

text \<open>
  A handler takes the cluster and the parent and returns both, updated, with its error.
  The parent is a pointer in the source: what a handler wrote into it before failing
  stays written.
\<close>

definition handleImageRepository :: "golib \<Rightarrow> ResourceManager \<Rightarrow> Cluster \<Rightarrow> FluxApp \<Rightarrow> Cluster \<times> FluxApp \<times> error option" where
  "handleImageRepository lib rm w app =
     (case Get rm w app ImageRepositoryKind of
        (w1, Inl err) \<Rightarrow> (w1, app, Some err)
      | (w1, Inr mr) \<Rightarrow>
          (case mr_Object mr of
             ImageRepositoryObj imageRepo \<Rightarrow>
               (case providerFromURL lib (Repository (spec_Chart (Spec app))) of
                  Inl err \<Rightarrow> (w1, app, Some err)
                | Inr provider \<Rightarrow>
                    (let parts = strings_Split (Repository (spec_Chart (Spec app))) ''://'' in
                     if length parts \<noteq> 2
                     then (w1, app, Some (InvalidChartRepositoryURL (Repository (spec_Chart (Spec app)))))
                     else
                       (let imageRepo' = imageRepo
                              \<lparr>ir_Spec := \<lparr>Image = parts ! 1, ir_Interval = 60, ir_Provider = provider\<rparr>\<rparr>;
                            app' =
                              (if Image (ir_Spec imageRepo') \<noteq> []
                               then app\<lparr>Status := (Status app)
                                      \<lparr>status_Chart := (status_Chart (Status app))
                                         \<lparr>st_Repository := ''oci://'' @ path_Dir lib (Image (ir_Spec imageRepo')),
                                          st_Name := path_Base lib (Image (ir_Spec imageRepo'))\<rparr>\<rparr>\<rparr>
                               else app)
                        in case Update rm w1 (mr\<lparr>mr_Object := ImageRepositoryObj imageRepo'\<rparr>) of
                             (w2, err) \<Rightarrow> (w2, app', err))))
           | _ \<Rightarrow> (w1, app, Some TypeAssertionPanic)))"

definition handleImagePolicy :: "ResourceManager \<Rightarrow> Cluster \<Rightarrow> FluxApp \<Rightarrow> Cluster \<times> FluxApp \<times> error option" where
  "handleImagePolicy rm w app =
     (case Get rm w app ImagePolicyKind of
        (w1, Inl err) \<Rightarrow> (w1, app, Some err)
      | (w1, Inr mr) \<Rightarrow>
          (case mr_Object mr of
             ImagePolicyObj imagePolicy \<Rightarrow>
               (let imagePolicy' = imagePolicy
                      \<lparr>ip_Spec := \<lparr>ImageRepositoryRef = (ImagePolicyName app, Namespace (app_Meta app)),
                                   SemVerRange = Version (spec_Chart (Spec app))\<rparr>\<rparr>;
                    parts = strings_Split (LatestImage (ip_Status imagePolicy')) '':''
                in if LatestImage (ip_Status imagePolicy') \<noteq> [] \<and> length parts \<noteq> 2
                   then (w1, app, Some (InvalidImageReference (LatestImage (ip_Status imagePolicy'))))
                   else
                     (let app' =
                            (if LatestImage (ip_Status imagePolicy') \<noteq> []
                             then app\<lparr>Status := (Status app)
                                    \<lparr>status_Chart := (status_Chart (Status app))
                                       \<lparr>st_Version := parts ! 1\<rparr>\<rparr>\<rparr>
                             else app)
                      in case Update rm w1 (mr\<lparr>mr_Object := ImagePolicyObj imagePolicy'\<rparr>) of
                           (w2, err) \<Rightarrow> (w2, app', err)))
           | _ \<Rightarrow> (w1, app, Some TypeAssertionPanic)))"

definition handleHelmRepository :: "golib \<Rightarrow> ResourceManager \<Rightarrow> Cluster \<Rightarrow> FluxApp \<Rightarrow> Cluster \<times> FluxApp \<times> error option" where
  "handleHelmRepository lib rm w app =
     (case Get rm w app HelmRepositoryKind of
        (w1, Inl err) \<Rightarrow> (w1, app, Some err)
      | (w1, Inr mr) \<Rightarrow>
          (case mr_Object mr of
             HelmRepositoryObj helmRepository \<Rightarrow>
               (case providerFromURL lib (st_Repository (status_Chart (Status app))) of
                  Inl err \<Rightarrow> (w1, app, Some err)
                | Inr provider \<Rightarrow>
                    (let helmRepository' = helmRepository
                           \<lparr>hrepo_Spec := \<lparr>URL_of = st_Repository (status_Chart (Status app)),
                                           Type_of = ''oci'', hr_Provider = provider\<rparr>\<rparr>
                     in case Update rm w1 (mr\<lparr>mr_Object := HelmRepositoryObj helmRepository'\<rparr>) of
                          (w2, err) \<Rightarrow> (w2, app, err)))
           | _ \<Rightarrow> (w1, app, Some TypeAssertionPanic)))"

definition handleHelmRelease :: "ResourceManager \<Rightarrow> Cluster \<Rightarrow> FluxApp \<Rightarrow> Cluster \<times> FluxApp \<times> error option" where
  "handleHelmRelease rm w app =
     (if st_Repository (status_Chart (Status app)) = [] \<or> st_Name (status_Chart (Status app)) = []
         \<or> st_Version (status_Chart (Status app)) = []
      then (w, app, Some ErrRequeue)
      else
        (case Get rm w app HelmReleaseKind of
           (w1, Inl err) \<Rightarrow> (w1, app, Some err)
         | (w1, Inr mr) \<Rightarrow>
             (case mr_Object mr of
                HelmReleaseObj helmRelease \<Rightarrow>
                  (let targetNS =
                         (if TargetNamespace (Spec app) = [] then Namespace (app_Meta app)
                          else TargetNamespace (Spec app));
                       helmRelease' = helmRelease
                         \<lparr>hrel_Spec :=
                            \<lparr>chart_Chart = st_Name (status_Chart (Status app)),
                             chart_Version = st_Version (status_Chart (Status app)),
                             chart_SourceRef =
                               (''HelmRepository'', HelmRepositoryName app, Namespace (app_Meta app)),
                             hrel_Interval = 60,
                             ReleaseName = Name (app_Meta app),
                             hrel_TargetNamespace = targetNS,
                             DriftDetectionMode = ''enabled'',
                             DriftDetectionIgnore = [[''/spec/replicas'']],
                             InstallReplace = True,
                             InstallCRDs = ''CreateReplace'',
                             InstallCreateNamespace = True,
                             UpgradeCRDs = ''CreateReplace''\<rparr>\<rparr>;
                       app' = SetMirror app ReadyCondition
                                (hrel_Conditions (hrel_Status helmRelease'))
                                (Some (False, ProgressingReason, ''HelmRelease is not ready''))
                   in case Update rm w1 (mr\<lparr>mr_Object := HelmReleaseObj helmRelease'\<rparr>) of
                        (w2, err) \<Rightarrow> (w2, app', err))
              | _ \<Rightarrow> (w1, app, Some TypeAssertionPanic))))"

section \<open>Reconcile (fluxapp_controller.go)\<close>

record Result =
  Requeue :: bool
  RequeueAfter :: nat

definition no_Result :: Result where
  "no_Result = \<lparr>Requeue = False, RequeueAfter = 0\<rparr>"

record FluxAppReconciler =
  Scheme_of :: "string list"
  ResourceManager_of :: ResourceManager

text \<open>
  What \<open>Reconcile\<close> makes of a handler's error: the sentinel becomes a requeue with a
  nil error, any other error is returned.
\<close>

definition stage_failed :: "error \<Rightarrow> Result \<times> error option" where
  "stage_failed err =
     (if errors_Is_errRequeue err then (\<lparr>Requeue = True, RequeueAfter = 0\<rparr>, None)
      else (no_Result, Some err))"

text \<open>The four handler calls of \<open>Reconcile\<close>, in the order of the source.\<close>

definition Reconcile_stages :: "golib \<Rightarrow> FluxAppReconciler \<Rightarrow> Cluster \<Rightarrow> FluxApp \<Rightarrow> Cluster \<times> FluxApp \<times> Result \<times> error option" where
  "Reconcile_stages lib r w app =
     (case handleImageRepository lib (ResourceManager_of r) w app of
        (w1, app1, Some err) \<Rightarrow> (w1, app1, stage_failed err)
      | (w1, app1, None) \<Rightarrow>
          (case handleImagePolicy (ResourceManager_of r) w1 app1 of
             (w2, app2, Some err) \<Rightarrow> (w2, app2, stage_failed err)
           | (w2, app2, None) \<Rightarrow>
               (case handleHelmRepository lib (ResourceManager_of r) w2 app2 of
                  (w3, app3, Some err) \<Rightarrow> (w3, app3, stage_failed err)
                | (w3, app3, None) \<Rightarrow>
                    (case handleHelmRelease (ResourceManager_of r) w3 app3 of
                       (w4, app4, Some err) \<Rightarrow> (w4, app4, stage_failed err)
                     | (w4, app4, None) \<Rightarrow> (w4, app4, no_Result, None)))))"

text \<open>
  \<open>Reconcile\<close>: fetch the parent; on deletion remove the finalizer and stop; otherwise
  add the finalizer when it is missing, run the stages, and patch the status on the way
  out (the deferred call, whose own error is only logged).
\<close>

definition Reconcile :: "golib \<Rightarrow> FluxAppReconciler \<Rightarrow> Cluster \<Rightarrow> NamespacedName \<Rightarrow> Cluster \<times> Result \<times> error option" where
  "Reconcile lib r w req =
     (case r_Get w req of
        (w1, Inl err) \<Rightarrow> (w1, no_Result, IgnoreNotFound err)
      | (w1, Inr app) \<Rightarrow>
          (if DeletionTimestamp (app_Meta app) \<noteq> None then
             (if ContainsFinalizer app finalizer
              then (case r_Update w1 (RemoveFinalizer app finalizer) of
                      (w2, Some err) \<Rightarrow> (w2, no_Result, Some err)
                    | (w2, None) \<Rightarrow> (w2, no_Result, None))
              else (w1, no_Result, None))
           else
             (case (if \<not> ContainsFinalizer app finalizer
                    then (case r_Update w1 (AddFinalizer app finalizer) of
                            (w2, err) \<Rightarrow> (w2, AddFinalizer app finalizer, err))
                    else (w1, app, None)) of
                (w2, app2, Some err) \<Rightarrow> (w2, no_Result, Some err)
              | (w2, app2, None) \<Rightarrow>
                  (case Reconcile_stages lib r w2 app2 of
                     (w3, app3, res, err) \<Rightarrow>
                       (fst (r_Status_Patch w3 app3 app2), res, err)))))"

section \<open>Notions used to state the properties\<close>

text \<open>
  The part of \<open>Reconcile\<close> before its first handler call: the cluster and the parent
  with which the stages start, or \<open>None\<close> when the invocation ends before them (parent
  not fetched, parent being deleted, or finalizer update failed).
\<close>

definition Reconcile_enter :: "Cluster \<Rightarrow> NamespacedName \<Rightarrow> (Cluster \<times> FluxApp) option" where
  "Reconcile_enter w req =
     (case r_Get w req of
        (w1, Inl err) \<Rightarrow> None
      | (w1, Inr app) \<Rightarrow>
          (if DeletionTimestamp (app_Meta app) \<noteq> None then None
           else if ContainsFinalizer app finalizer then Some (w1, app)
           else (case r_Update w1 (AddFinalizer app finalizer) of
                   (w2, Some err) \<Rightarrow> None
                 | (w2, None) \<Rightarrow> Some (w2, AddFinalizer app finalizer))))"

text \<open>
  What a request says about ownership: a create carries the controller reference to the
  parent; a patch leaves the owner references as they were fetched.
\<close>

fun commit_ok :: "FluxApp \<Rightarrow> Call \<Rightarrow> bool" where
  "commit_ok app (CreateCall obj) = controlled_by obj app"
| "commit_ok app (PatchCall obj base) =
     (OwnerReferences (meta_of obj) = OwnerReferences (meta_of base))"
| "commit_ok app (GetCall k key) = True"
| "commit_ok app (GetAppCall key) = True"
| "commit_ok app (UpdateAppCall a) = True"
| "commit_ok app (PatchStatusCall a b) = True"

text \<open>The parent after the image-source stage has written its two status fields.\<close>

definition with_chart :: "FluxApp \<Rightarrow> string \<Rightarrow> string \<Rightarrow> FluxApp" where
  "with_chart app repo name =
     app\<lparr>Status := (Status app)
           \<lparr>status_Chart := (status_Chart (Status app))\<lparr>st_Repository := repo, st_Name := name\<rparr>\<rparr>\<rparr>"

text \<open>The parent after the version-selector stage has written the resolved version.\<close>

definition with_version :: "FluxApp \<Rightarrow> string \<Rightarrow> FluxApp" where
  "with_version app v =
     app\<lparr>Status := (Status app)\<lparr>status_Chart := (status_Chart (Status app))\<lparr>st_Version := v\<rparr>\<rparr>\<rparr>"

text \<open>The first two handler calls of \<open>Reconcile\<close>: image source, then version selector.\<close>

definition stages_1_2 :: "golib \<Rightarrow> FluxAppReconciler \<Rightarrow> Cluster \<Rightarrow> FluxApp \<Rightarrow> Cluster \<times> FluxApp \<times> error option" where
  "stages_1_2 lib r w app =
     (case handleImageRepository lib (ResourceManager_of r) w app of
        (w1, app1, Some err) \<Rightarrow> (w1, app1, Some err)
      | (w1, app1, None) \<Rightarrow> handleImagePolicy (ResourceManager_of r) w1 app1)"

text \<open>A request in short: its verb and the kind it addresses.\<close>

fun request_of :: "Call \<Rightarrow> string \<times> string" where
  "request_of (GetCall k key) = (''get'', k)"
| "request_of (CreateCall obj) = (''create'', kind_of obj)"
| "request_of (PatchCall obj base) = (''patch'', kind_of obj)"
| "request_of (GetAppCall key) = (''get'', ''FluxApp'')"
| "request_of (UpdateAppCall a) = (''update'', ''FluxApp'')"
| "request_of (PatchStatusCall a b) = (''patch status'', ''FluxApp'')"

text \<open>The fallback condition of the release stage.\<close>

definition not_ready :: Condition where
  "not_ready = \<lparr>cond_Type = ReadyCondition, cond_Status = ''False'',
                cond_Reason = ProgressingReason, cond_Message = ''HelmRelease is not ready''\<rparr>"

section \<open>Example clusters\<close>

text \<open>
  A parent \<open>demo\<close> in namespace \<open>default\<close> for the chart \<open>oci://ghcr.io/org/app\<close>,
  with the finalizer registered and nothing resolved yet, in a cluster with no child.
\<close>

definition demo_app :: FluxApp where
  "demo_app =
     \<lparr>app_Meta = \<lparr>Name = ''demo'', Namespace = ''default'', UID = ''uid-1'',
                  DeletionTimestamp = None, Finalizers = [''apps.kloudy.uk/finalizer''],
                  OwnerReferences = []\<rparr>,
      Spec = \<lparr>spec_Chart = \<lparr>Repository = ''oci://ghcr.io/org/app'', Version = ''*''\<rparr>,
              TargetNamespace = []\<rparr>,
      Status = \<lparr>status_Chart = \<lparr>st_Repository = [], st_Name = [], st_Version = []\<rparr>,
                Conditions = []\<rparr>\<rparr>"

definition demo_r :: FluxAppReconciler where
  "demo_r = \<lparr>Scheme_of = [''FluxApp''], ResourceManager_of = \<lparr>rm_scheme = [''FluxApp'']\<rparr>\<rparr>"

definition demo_cluster :: Cluster where
  "demo_cluster =
     \<lparr>imageRepositories = Map.empty, imagePolicies = Map.empty, helmRepositories = Map.empty,
      helmReleases = Map.empty, fluxApps = [(''default'', ''demo'') \<mapsto> demo_app],
      faults = (\<lambda>c. None), trace = []\<rparr>"

text \<open>The same cluster with a parent whose finalizer is not registered yet.\<close>

definition new_app :: FluxApp where
  "new_app = demo_app\<lparr>app_Meta := (app_Meta demo_app)\<lparr>Finalizers := []\<rparr>\<rparr>"

definition new_cluster :: Cluster where
  "new_cluster = demo_cluster\<lparr>fluxApps := [(''default'', ''demo'') \<mapsto> new_app]\<rparr>"

text \<open>The cluster once the version selector exists and reports \<open>latest\<close>.\<close>

definition demo_policy :: "string \<Rightarrow> ImagePolicy" where
  "demo_policy latest =
     \<lparr>ip_Meta = \<lparr>Name = ''demo-chart'', Namespace = ''default'', UID = ''uid-2'',
                 DeletionTimestamp = None, Finalizers = [],
                 OwnerReferences = [\<lparr>ref_Kind = ''FluxApp'', ref_Name = ''demo'', ref_UID = ''uid-1'',
                                     ref_Controller = True, ref_BlockOwnerDeletion = True\<rparr>]\<rparr>,
      ip_Spec = \<lparr>ImageRepositoryRef = (''demo-chart'', ''default''), SemVerRange = ''*''\<rparr>,
      ip_Status = \<lparr>LatestImage = latest\<rparr>\<rparr>"

definition policy_cluster :: "string \<Rightarrow> Cluster" where
  "policy_cluster latest =
     demo_cluster\<lparr>imagePolicies := [(''default'', ''demo-chart'') \<mapsto> demo_policy latest]\<rparr>"

text \<open>Clusters in which one request fails: a lookup of a given kind, or every create.\<close>

definition failing_Get :: "string \<Rightarrow> Cluster \<Rightarrow> Cluster" where
  "failing_Get kind w =
     w\<lparr>faults := (\<lambda>c. case c of GetCall k key \<Rightarrow> if k = kind then Some ''timeout'' else None
                        | _ \<Rightarrow> None)\<rparr>"

definition failing_Create :: "Cluster \<Rightarrow> Cluster" where
  "failing_Create w =
     w\<lparr>faults := (\<lambda>c. case c of CreateCall obj \<Rightarrow> Some ''rejected'' | _ \<Rightarrow> None)\<rparr>"

text \<open>A cluster that answers every update of the parent with a conflict.\<close>

definition failing_Update :: "Cluster \<Rightarrow> Cluster" where
  "failing_Update w =
     w\<lparr>faults := (\<lambda>c. case c of UpdateAppCall a \<Rightarrow> Some ''conflict'' | _ \<Rightarrow> None)\<rparr>"

text \<open>A release that Helm has installed, and the example cluster holding it.\<close>

definition installed :: Condition where
  "installed = \<lparr>cond_Type = ''Ready'', cond_Status = ''True'',
                cond_Reason = ''InstallSucceeded'', cond_Message = ''Helm install succeeded''\<rparr>"

definition demo_release :: HelmRelease where
  "demo_release =
     empty_HelmRelease
       \<lparr>hrel_Meta := \<lparr>Name = ''demo'', Namespace = ''default'', UID = ''uid-4'',
                       DeletionTimestamp = None, Finalizers = [],
                       OwnerReferences = [\<lparr>ref_Kind = ''FluxApp'', ref_Name = ''demo'',
                                           ref_UID = ''uid-1'', ref_Controller = True,
                                           ref_BlockOwnerDeletion = True\<rparr>]\<rparr>,
        hrel_Status := \<lparr>hrel_Conditions = [installed]\<rparr>\<rparr>"

definition release_cluster :: Cluster where
  "release_cluster = demo_cluster\<lparr>helmReleases := [(''default'', ''demo'') \<mapsto> demo_release]\<rparr>"

text \<open>
  A chart source for \<open>oci://ghcr.io/org\<close> that another parent of the namespace,
  \<open>other\<close>, has created, and the example cluster holding it.
\<close>

definition shared_repository :: HelmRepository where
  "shared_repository =
     \<lparr>hrepo_Meta = \<lparr>Name = ''ghcr-io-org'', Namespace = ''default'', UID = ''uid-3'',
                    DeletionTimestamp = None, Finalizers = [],
                    OwnerReferences = [\<lparr>ref_Kind = ''FluxApp'', ref_Name = ''other'',
                                        ref_UID = ''uid-9'', ref_Controller = True,
                                        ref_BlockOwnerDeletion = True\<rparr>]\<rparr>,
      hrepo_Spec = \<lparr>URL_of = ''oci://ghcr.io/org'', Type_of = ''oci'', hr_Provider = ''generic''\<rparr>\<rparr>"

definition shared_cluster :: Cluster where
  "shared_cluster =
     demo_cluster\<lparr>helmRepositories := [(''default'', ''ghcr-io-org'') \<mapsto> shared_repository]\<rparr>"

text \<open>The parent once repository, name and version are resolved.\<close>

definition resolved_app :: FluxApp where
  "resolved_app =
     demo_app\<lparr>Status := \<lparr>status_Chart = \<lparr>st_Repository = ''oci://ghcr.io/org'', st_Name = ''app'',
                                          st_Version = ''6.7.1''\<rparr>,
                          Conditions = []\<rparr>\<rparr>"

section \<open>Facts about the string helpers\<close>

lemma strings_Contains_self: "strings_Contains x x"
  by (cases x) (simp_all add: strings_HasPrefix_def)

lemma strings_Contains_append: "strings_Contains (p @ x) x"
  by (induction p) (simp_all add: strings_Contains_self)

lemma strings_Contains_suffix: "strings_HasSuffix s x \<Longrightarrow> strings_Contains s x"
proof -
  assume "strings_HasSuffix s x"
  then have "s = take (length s - length x) s @ x"
    by (metis append_take_drop_id strings_HasSuffix_def)
  then show ?thesis
    by (metis strings_Contains_append)
qed

section \<open>Facts about the cluster and the resource manager\<close>

lemma meta_of_set_meta [simp]: "meta_of (set_meta obj m) = m"
  by (cases obj) simp_all

lemma kind_of_set_meta [simp]: "kind_of (set_meta obj m) = kind_of obj"
  by (cases obj) simp_all

lemma upsertOwnerRef_mem: "ref \<in> set (upsertOwnerRef ref rs)"
  by (induction rs) auto

lemma SetControllerReference_controlled:
  "SetControllerReference app obj scheme = Inr obj' \<Longrightarrow> controlled_by obj' app"
  by (auto simp: SetControllerReference_def controlled_by_def upsertOwnerRef_mem
           split: option.splits if_splits)

lemma SetControllerReference_kind:
  "SetControllerReference app obj scheme = Inr obj' \<Longrightarrow> kind_of obj' = kind_of obj"
  by (auto simp: SetControllerReference_def split: option.splits if_splits)

lemma trace_sent [simp]: "trace (sent w c) = trace w @ [c]"
  by (simp add: sent_def)

lemma trace_store [simp]: "trace (store w obj) = trace w"
  by (cases obj) simp_all

lemma kind_of_lookup: "lookup w obj key = Some found \<Longrightarrow> kind_of found = kind_of obj"
  by (cases obj) auto

lemma client_Get_sent:
  "fst (client_Get w key obj) = sent w (GetCall (kind_of obj) key)"
  by (simp add: client_Get_def Let_def split: option.splits)

lemma client_Get_found:
  "client_Get w key obj = (w1, None, found) \<Longrightarrow> lookup w obj key = Some found"
  by (auto simp: client_Get_def Let_def split: option.splits)

lemma client_Get_NotFound:
  "client_Get w key obj = (w1, Some NotFound, obj') \<Longrightarrow> lookup w obj key = None \<and> obj' = obj"
  by (auto simp: client_Get_def Let_def split: option.splits)

lemma Update_trace:
  "Update rm w res = (w', e) \<Longrightarrow>
   trace w' = trace w @ [case mr_patch res of None \<Rightarrow> CreateCall (mr_Object res)
                         | Some base \<Rightarrow> PatchCall (mr_Object res) base]"
  by (auto simp: Update_def client_Create_def client_Patch_def Let_def split: option.splits)

lemma Get_sent:
  "init_for_kind app kind = Some (obj0, name) \<Longrightarrow>
   fst (Get rm w app kind) = sent w (GetCall (kind_of obj0) (Namespace (app_Meta app), name))"
  using client_Get_sent [of w "(Namespace (app_Meta app), name)" obj0]
  by (auto simp: Get_def Let_def split: prod.splits option.splits sum.splits)

lemma Get_record:
  assumes "Get rm w app kind = (w1, Inr mr)"
  shows "\<exists>obj0 name. init_for_kind app kind = Some (obj0, name) \<and> kind_of (mr_Object mr) = kind_of obj0 \<and>
           (case lookup w obj0 (Namespace (app_Meta app), name) of
              None \<Rightarrow> mr_patch mr = None \<and> controlled_by (mr_Object mr) app
            | Some stored \<Rightarrow> mr_patch mr = Some stored \<and> mr_Object mr = stored)"
proof (cases "init_for_kind app kind")
  case None
  with assms show ?thesis by (simp add: Get_def)
next
  case (Some p)
  obtain obj0 name where p: "p = (obj0, name)" by (cases p)
  obtain wg eg og where g: "client_Get w (Namespace (app_Meta app), name) obj0 = (wg, eg, og)"
    by (cases "client_Get w (Namespace (app_Meta app), name) obj0")
  show ?thesis
  proof (cases eg)
    case None
    with assms Some p g have "mr = \<lparr>mr_Object = og, mr_patch = Some og\<rparr>"
      by (simp add: Get_def)
    moreover from g None have "lookup w obj0 (Namespace (app_Meta app), name) = Some og"
      by (simp add: client_Get_found)
    ultimately show ?thesis using Some p by (simp add: kind_of_lookup)
  next
    case (Some err)
    with assms \<open>init_for_kind app kind = Some p\<close> p g have nf: "err = NotFound"
      by (auto simp: Get_def IgnoreNotFound_def split: if_splits)
    with g Some have l: "lookup w obj0 (Namespace (app_Meta app), name) = None" and og: "og = obj0"
      by (simp_all add: client_Get_NotFound)
    from assms \<open>init_for_kind app kind = Some p\<close> p g Some nf og
    have "mr_patch mr = None \<and> controlled_by (mr_Object mr) app \<and> kind_of (mr_Object mr) = kind_of obj0"
      by (auto simp: Get_def IgnoreNotFound_def SetName_def SetNamespace_def split: sum.splits
               dest: SetControllerReference_controlled SetControllerReference_kind)
    with l \<open>init_for_kind app kind = Some p\<close> p show ?thesis by simp
  qed
qed

lemma Get_trace:
  "Get rm w app kind = (w1, r) \<Longrightarrow>
   trace w1 = trace w \<or> (\<exists>k key. trace w1 = trace w @ [GetCall k key])"
proof (cases "init_for_kind app kind")
  case None
  assume "Get rm w app kind = (w1, r)"
  with None show ?thesis by (simp add: Get_def)
next
  case (Some p)
  assume a: "Get rm w app kind = (w1, r)"
  obtain obj0 name where p: "p = (obj0, name)" by (cases p)
  from Get_sent [of app kind obj0 name rm w] Some p a show ?thesis by auto
qed

lemma Get_patch:
  "Get rm w app kind = (w1, Inr mr) \<Longrightarrow>
   (mr_patch mr = None \<and> controlled_by (mr_Object mr) app) \<or> mr_patch mr = Some (mr_Object mr)"
  by (drule Get_record) (auto split: option.splits)

lemma stage_commit:
  assumes g: "Get rm w app kind = (w1, Inr mr)"
      and u: "Update rm w1 (mr\<lparr>mr_Object := obj'\<rparr>) = (w2, e)"
      and m: "meta_of obj' = meta_of (mr_Object mr)"
  shows "\<exists>cs. trace w2 = trace w @ cs \<and> (\<forall>c \<in> set cs. commit_ok app c)"
proof -
  from Get_trace [OF g] obtain gs where gs: "trace w1 = trace w @ gs" "\<forall>c \<in> set gs. commit_ok app c"
    by auto
  from Update_trace [OF u] have t: "trace w2 = trace w1 @
      [case mr_patch mr of None \<Rightarrow> CreateCall obj' | Some base \<Rightarrow> PatchCall obj' base]"
    by (simp split: option.splits)
  from Get_patch [OF g] m
  have "commit_ok app (case mr_patch mr of None \<Rightarrow> CreateCall obj' | Some base \<Rightarrow> PatchCall obj' base)"
    by (auto simp: controlled_by_def)
  with gs t show ?thesis by auto
qed

lemma stage_fetch_only:
  assumes g: "Get rm w app kind = (w1, r)"
  shows "\<exists>cs. trace w1 = trace w @ cs \<and> (\<forall>c \<in> set cs. commit_ok app c)"
  using Get_trace [OF g] by auto

lemma handleImageRepository_calls:
  assumes "handleImageRepository lib rm w app = (w', app', e)"
  shows "app_Meta app' = app_Meta app \<and> Spec app' = Spec app \<and>
         (\<exists>cs. trace w' = trace w @ cs \<and> (\<forall>c \<in> set cs. commit_ok app c))"
proof -
  obtain w1 r where g: "Get rm w app ImageRepositoryKind = (w1, r)"
    by (cases "Get rm w app ImageRepositoryKind")
  show ?thesis
    using assms g stage_fetch_only [OF g]
    by (auto simp: handleImageRepository_def Let_def
             split: sum.splits Object.splits if_splits prod.splits dest: stage_commit)
qed

lemma handleImagePolicy_calls:
  assumes "handleImagePolicy rm w app = (w', app', e)"
  shows "app_Meta app' = app_Meta app \<and> Spec app' = Spec app \<and>
         (\<exists>cs. trace w' = trace w @ cs \<and> (\<forall>c \<in> set cs. commit_ok app c))"
proof -
  obtain w1 r where g: "Get rm w app ImagePolicyKind = (w1, r)"
    by (cases "Get rm w app ImagePolicyKind")
  show ?thesis
    using assms g stage_fetch_only [OF g]
    by (auto simp: handleImagePolicy_def Let_def
             split: sum.splits Object.splits if_splits prod.splits dest: stage_commit)
qed

lemma handleHelmRepository_calls:
  assumes "handleHelmRepository lib rm w app = (w', app', e)"
  shows "app' = app \<and>
         (\<exists>cs. trace w' = trace w @ cs \<and> (\<forall>c \<in> set cs. commit_ok app c))"
proof -
  obtain w1 r where g: "Get rm w app HelmRepositoryKind = (w1, r)"
    by (cases "Get rm w app HelmRepositoryKind")
  show ?thesis
    using assms g stage_fetch_only [OF g]
    by (auto simp: handleHelmRepository_def Let_def
             split: sum.splits Object.splits if_splits prod.splits dest: stage_commit)
qed

lemma handleHelmRelease_calls:
  assumes "handleHelmRelease rm w app = (w', app', e)"
  shows "app_Meta app' = app_Meta app \<and> Spec app' = Spec app \<and>
         (\<exists>cs. trace w' = trace w @ cs \<and> (\<forall>c \<in> set cs. commit_ok app c))"
proof -
  obtain w1 r where g: "Get rm w app HelmReleaseKind = (w1, r)"
    by (cases "Get rm w app HelmReleaseKind")
  show ?thesis
    using assms g stage_fetch_only [OF g]
    by (auto simp: handleHelmRelease_def Let_def SetMirror_def
             split: sum.splits Object.splits if_splits prod.splits dest: stage_commit)
qed

lemma commit_ok_meta: "app_Meta a = app_Meta b \<Longrightarrow> commit_ok a c = commit_ok b c"
  by (cases c) (simp_all add: controlled_by_def controller_ref_def)

lemma Reconcile_stages_calls:
  assumes "Reconcile_stages lib r w app = (w', app', res, err)"
  shows "app_Meta app' = app_Meta app \<and> Spec app' = Spec app \<and>
         (\<exists>cs. trace w' = trace w @ cs \<and> (\<forall>c \<in> set cs. commit_ok app c))"
proof -
  obtain w1 a1 e1 where h1: "handleImageRepository lib (ResourceManager_of r) w app = (w1, a1, e1)"
    by (cases "handleImageRepository lib (ResourceManager_of r) w app")
  obtain w2 a2 e2 where h2: "handleImagePolicy (ResourceManager_of r) w1 a1 = (w2, a2, e2)"
    by (cases "handleImagePolicy (ResourceManager_of r) w1 a1")
  obtain w3 a3 e3 where h3: "handleHelmRepository lib (ResourceManager_of r) w2 a2 = (w3, a3, e3)"
    by (cases "handleHelmRepository lib (ResourceManager_of r) w2 a2")
  obtain w4 a4 e4 where h4: "handleHelmRelease (ResourceManager_of r) w3 a3 = (w4, a4, e4)"
    by (cases "handleHelmRelease (ResourceManager_of r) w3 a3")
  note c1 = handleImageRepository_calls [OF h1]
  note c2 = handleImagePolicy_calls [OF h2]
  note c3 = handleHelmRepository_calls [OF h3]
  note c4 = handleHelmRelease_calls [OF h4]
  from c1 c2 have m2: "app_Meta a2 = app_Meta app" "Spec a2 = Spec app" by simp_all
  from c3 m2 have m3: "app_Meta a3 = app_Meta app" "Spec a3 = Spec app" by simp_all
  from c1 obtain cs1 where t1: "trace w1 = trace w @ cs1" "\<forall>c \<in> set cs1. commit_ok app c" by auto
  from c2 obtain cs2 where t2: "trace w2 = trace w1 @ cs2" "\<forall>c \<in> set cs2. commit_ok a1 c" by auto
  from c3 obtain cs3 where t3: "trace w3 = trace w2 @ cs3" "\<forall>c \<in> set cs3. commit_ok a2 c" by auto
  from c4 obtain cs4 where t4: "trace w4 = trace w3 @ cs4" "\<forall>c \<in> set cs4. commit_ok a3 c" by auto
  from c1 t2 have k2: "\<forall>c \<in> set cs2. commit_ok app c" using commit_ok_meta [of a1 app] by simp
  from m2 t3 have k3: "\<forall>c \<in> set cs3. commit_ok app c" using commit_ok_meta [of a2 app] by simp
  from m3 t4 have k4: "\<forall>c \<in> set cs4. commit_ok app c" using commit_ok_meta [of a3 app] by simp
  have s1: "\<exists>cs. trace w1 = trace w @ cs \<and> (\<forall>c \<in> set cs. commit_ok app c)" using t1 by blast
  have s2: "\<exists>cs. trace w2 = trace w @ cs \<and> (\<forall>c \<in> set cs. commit_ok app c)"
    using t1 t2 k2 by (intro exI [of _ "cs1 @ cs2"]) auto
  have s3: "\<exists>cs. trace w3 = trace w @ cs \<and> (\<forall>c \<in> set cs. commit_ok app c)"
    using t1 t2 t3 k2 k3 by (intro exI [of _ "cs1 @ cs2 @ cs3"]) auto
  have s4: "\<exists>cs. trace w4 = trace w @ cs \<and> (\<forall>c \<in> set cs. commit_ok app c)"
    using t1 t2 t3 t4 k2 k3 k4 by (intro exI [of _ "cs1 @ cs2 @ cs3 @ cs4"]) auto
  show ?thesis
  proof (cases e1)
    case (Some x)
    with assms h1 have "w' = w1" "app' = a1" by (simp_all add: Reconcile_stages_def)
    with c1 s1 show ?thesis by simp
  next
    case None
    note n1 = None
    show ?thesis
    proof (cases e2)
      case (Some x)
      with assms h1 h2 n1 have "w' = w2" "app' = a2" by (simp_all add: Reconcile_stages_def)
      with m2 s2 show ?thesis by simp
    next
      case None
      note n2 = None
      show ?thesis
      proof (cases e3)
        case (Some x)
        with assms h1 h2 h3 n1 n2 have "w' = w3" "app' = a3" by (simp_all add: Reconcile_stages_def)
        with m3 s3 show ?thesis by simp
      next
        case None
        with assms h1 h2 h3 h4 n1 n2 have "w' = w4" "app' = a4"
          by (auto simp: Reconcile_stages_def split: option.splits)
        with m3 c4 s4 show ?thesis by simp
      qed
    qed
  qed
qed

text \<open>Definitions to unfold when the model is evaluated on an example.\<close>

lemmas string_defs = strings_HasPrefix_def strings_HasSuffix_def strings_TrimPrefix_def
  strings_Split_def Replacer_Replace_def

lemmas lib_defs = plainlib_def plain_url_Parse_def plain_path_Base_def plain_path_Dir_def

lemmas kind_defs = ImageRepositoryKind_def ImagePolicyKind_def HelmRepositoryKind_def
  HelmReleaseKind_def FluxAppKind_def

lemmas name_defs = ImageRepositoryName_def ImagePolicyName_def HelmRepositoryName_def
  HelmReleaseName_def

lemmas client_defs = key_of_def sent_def client_Get_def client_Create_def client_Patch_def
  r_Get_def app_key_def r_Update_def r_Status_Patch_def

lemmas owner_defs = finalizer_def ContainsFinalizer_def AddFinalizer_def RemoveFinalizer_def
  controller_ref_def referSameObject_def validateOwner_def validateControllerRef_def
  SetControllerReference_def controlled_by_def SetName_def SetNamespace_def empty_meta_def

lemmas manager_defs = empty_ImageRepository_def empty_ImagePolicy_def empty_HelmRepository_def
  empty_HelmRelease_def Update_def init_for_kind_def Get_def IgnoreNotFound_def

lemmas condition_defs = ReadyCondition_def ProgressingReason_def conditions_Get_def
  conditions_Set_def mirror_def SetMirror_def

lemmas stage_defs = providerFromURL_def handleImageRepository_def handleImagePolicy_def
  handleHelmRepository_def handleHelmRelease_def errors_Is_errRequeue_def stage_failed_def
  no_Result_def Reconcile_stages_def Reconcile_def

lemmas example_defs = demo_app_def demo_r_def demo_cluster_def demo_policy_def
  policy_cluster_def

lemmas model_defs = string_defs lib_defs kind_defs name_defs client_defs owner_defs
  manager_defs condition_defs stage_defs example_defs

section \<open>Facts about the stages and \<open>Reconcile\<close>\<close>

lemma Reconcile_enter_stages:
  assumes "Reconcile_enter w req = Some (w2, app2)"
  shows "Reconcile lib r w req =
           (case Reconcile_stages lib r w2 app2 of
              (w3, app3, res, err) \<Rightarrow> (fst (r_Status_Patch w3 app3 app2), res, err))"
  using assms
  by (auto simp: Reconcile_enter_def Reconcile_def
           split: prod.splits sum.splits if_splits option.splits)

lemma r_Status_Patch_trace:
  "trace (fst (r_Status_Patch w app base)) = trace w @ [PatchStatusCall app base]"
  by (simp add: r_Status_Patch_def Let_def split: option.splits)

lemma Get_sent_HelmRepository:
  "fst (Get rm w app HelmRepositoryKind)
     = sent w (GetCall HelmRepositoryKind (Namespace (app_Meta app), HelmRepositoryName app))"
  using Get_sent [of app HelmRepositoryKind "HelmRepositoryObj empty_HelmRepository"
                     "HelmRepositoryName app" rm w]
  by (simp add: init_for_kind_def kind_defs)

lemma Get_sent_ImageRepository:
  "fst (Get rm w app ImageRepositoryKind)
     = sent w (GetCall ImageRepositoryKind (Namespace (app_Meta app), ImageRepositoryName app))"
  using Get_sent [of app ImageRepositoryKind "ImageRepositoryObj empty_ImageRepository"
                     "ImageRepositoryName app" rm w]
  by (simp add: init_for_kind_def kind_defs)

lemma Get_sent_ImagePolicy:
  "fst (Get rm w app ImagePolicyKind)
     = sent w (GetCall ImagePolicyKind (Namespace (app_Meta app), ImagePolicyName app))"
  using Get_sent [of app ImagePolicyKind "ImagePolicyObj empty_ImagePolicy"
                     "ImagePolicyName app" rm w]
  by (simp add: init_for_kind_def kind_defs)

lemma Get_sent_HelmRelease:
  "fst (Get rm w app HelmReleaseKind)
     = sent w (GetCall HelmReleaseKind (Namespace (app_Meta app), HelmReleaseName app))"
  using Get_sent [of app HelmReleaseKind "HelmReleaseObj empty_HelmRelease"
                     "HelmReleaseName app" rm w]
  by (simp add: init_for_kind_def kind_defs)

lemma handleHelmRepository_first_call:
  assumes "handleHelmRepository lib rm w app = (w', app', e)"
  shows "\<exists>cs. trace w' = trace w @
            GetCall HelmRepositoryKind (Namespace (app_Meta app), HelmRepositoryName app) # cs"
proof -
  obtain w1 r where g: "Get rm w app HelmRepositoryKind = (w1, r)"
    by (cases "Get rm w app HelmRepositoryKind")
  with Get_sent_HelmRepository [of rm w app]
  have t: "trace w1 = trace w @
      [GetCall HelmRepositoryKind (Namespace (app_Meta app), HelmRepositoryName app)]"
    by simp
  show ?thesis
    using assms g t
    by (auto simp: handleHelmRepository_def Let_def
             split: sum.splits Object.splits if_splits prod.splits dest!: Update_trace)
qed

lemma handleHelmRepository_app:
  "handleHelmRepository lib rm w app = (w', app', e) \<Longrightarrow> app' = app"
  by (auto simp: handleHelmRepository_def Let_def
           split: sum.splits Object.splits if_splits prod.splits)

lemma handleHelmRelease_gate:
  assumes "st_Repository (status_Chart (Status app)) = [] \<or> st_Name (status_Chart (Status app)) = []
           \<or> st_Version (status_Chart (Status app)) = []"
  shows "handleHelmRelease rm w app = (w, app, Some ErrRequeue)"
  using assms by (auto simp: handleHelmRelease_def)

lemma kind_of_ImageRepository: "kind_of obj = ImageRepositoryKind \<Longrightarrow> \<exists>x. obj = ImageRepositoryObj x"
  by (cases obj) (simp_all add: kind_defs)

lemma kind_of_ImagePolicy: "kind_of obj = ImagePolicyKind \<Longrightarrow> \<exists>x. obj = ImagePolicyObj x"
  by (cases obj) (simp_all add: kind_defs)

lemma kind_of_HelmRelease: "kind_of obj = HelmReleaseKind \<Longrightarrow> \<exists>x. obj = HelmReleaseObj x"
  by (cases obj) (simp_all add: kind_defs)

lemma Get_ImageRepository_object:
  assumes "Get rm w app ImageRepositoryKind = (w1, Inr mr)"
  shows "\<exists>x. mr_Object mr = ImageRepositoryObj x"
  using Get_record [OF assms]
  by (auto simp: init_for_kind_def intro: kind_of_ImageRepository)

lemma Get_ImagePolicy_object:
  assumes "Get rm w app ImagePolicyKind = (w1, Inr mr)"
  shows "\<exists>x. mr_Object mr = ImagePolicyObj x"
  using Get_record [OF assms]
  by (auto simp: init_for_kind_def kind_defs intro: kind_of_ImagePolicy [unfolded kind_defs])

lemma Get_HelmRelease_object:
  assumes "Get rm w app HelmReleaseKind = (w1, Inr mr)"
  shows "\<exists>x. mr_Object mr = HelmReleaseObj x"
  using Get_record [OF assms]
  by (auto simp: init_for_kind_def kind_defs intro: kind_of_HelmRelease [unfolded kind_defs])

lemma handleImageRepository_first_call:
  assumes "handleImageRepository lib rm w app = (w', app', e)"
  shows "\<exists>cs. trace w' = trace w @
            GetCall ImageRepositoryKind (Namespace (app_Meta app), ImageRepositoryName app) # cs"
proof -
  obtain w1 r where g: "Get rm w app ImageRepositoryKind = (w1, r)"
    by (cases "Get rm w app ImageRepositoryKind")
  with Get_sent_ImageRepository [of rm w app]
  have t: "trace w1 = trace w @
      [GetCall ImageRepositoryKind (Namespace (app_Meta app), ImageRepositoryName app)]"
    by simp
  show ?thesis
    using assms g t
    by (auto simp: handleImageRepository_def Let_def
             split: sum.splits Object.splits if_splits prod.splits dest!: Update_trace)
qed

lemma Reconcile_stages_first_call:
  assumes "Reconcile_stages lib r w app = (w', app', res, err)"
  shows "\<exists>cs. trace w' = trace w @
            GetCall ImageRepositoryKind (Namespace (app_Meta app), ImageRepositoryName app) # cs"
proof -
  let ?G = "GetCall ImageRepositoryKind (Namespace (app_Meta app), ImageRepositoryName app)"
  obtain w1 a1 e1 where h1: "handleImageRepository lib (ResourceManager_of r) w app = (w1, a1, e1)"
    by (cases "handleImageRepository lib (ResourceManager_of r) w app")
  obtain w2 a2 e2 where h2: "handleImagePolicy (ResourceManager_of r) w1 a1 = (w2, a2, e2)"
    by (cases "handleImagePolicy (ResourceManager_of r) w1 a1")
  obtain w3 a3 e3 where h3: "handleHelmRepository lib (ResourceManager_of r) w2 a2 = (w3, a3, e3)"
    by (cases "handleHelmRepository lib (ResourceManager_of r) w2 a2")
  obtain w4 a4 e4 where h4: "handleHelmRelease (ResourceManager_of r) w3 a3 = (w4, a4, e4)"
    by (cases "handleHelmRelease (ResourceManager_of r) w3 a3")
  from handleImageRepository_first_call [OF h1]
  obtain c1 where t1: "trace w1 = trace w @ ?G # c1" by auto
  from handleImagePolicy_calls [OF h2] obtain c2 where t2: "trace w2 = trace w1 @ c2" by auto
  from handleHelmRepository_calls [OF h3] obtain c3 where t3: "trace w3 = trace w2 @ c3" by auto
  from handleHelmRelease_calls [OF h4] obtain c4 where t4: "trace w4 = trace w3 @ c4" by auto
  have "w' = w1 \<or> w' = w2 \<or> w' = w3 \<or> w' = w4"
    using assms h1 h2 h3 h4
    by (auto simp: Reconcile_stages_def split: option.splits)
  with t1 t2 t3 t4 show ?thesis by auto
qed

lemma r_Get_trace: "r_Get w req = (w1, res) \<Longrightarrow> trace w1 = trace w @ [GetAppCall req]"
  by (auto simp: r_Get_def Let_def split: option.splits)

lemma r_Update_trace: "r_Update w app = (w1, e) \<Longrightarrow> trace w1 = trace w @ [UpdateAppCall app]"
  by (auto simp: r_Update_def Let_def split: option.splits if_splits)

lemma r_Update_stored:
  "r_Update w app = (w1, None) \<Longrightarrow> DeletionTimestamp (app_Meta app) = None \<Longrightarrow>
   \<exists>old. fluxApps w (app_key app) = Some old \<and>
         fluxApps w1 (app_key app) = Some (app\<lparr>Status := Status old\<rparr>)"
  by (auto simp: r_Update_def Let_def sent_def split: option.splits if_splits)

lemma lookup_kind: "kind_of a = kind_of b \<Longrightarrow> lookup w a key = lookup w b key"
  by (cases a; cases b) (simp_all add: kind_defs)

lemma stage_patch_baseline:
  assumes g: "Get rm w app kind = (w1, Inr mr)"
      and u: "Update rm w1 (mr\<lparr>mr_Object := obj'\<rparr>) = (w2, e)"
      and p: "PatchCall obj base \<in> set (trace w2)" "PatchCall obj base \<notin> set (trace w)"
  shows "\<exists>key. lookup w base key = Some base"
proof -
  from Get_trace [OF g] p(2) have "PatchCall obj base \<notin> set (trace w1)" by auto
  with Update_trace [OF u] p(1) have b: "mr_patch mr = Some base"
    by (auto split: option.splits)
  from Get_record [OF g] b obtain obj0 name where
    l: "lookup w obj0 (Namespace (app_Meta app), name) = Some base"
    by (auto split: option.splits)
  from kind_of_lookup [OF l] lookup_kind [of base obj0 w "(Namespace (app_Meta app), name)"] l
  show ?thesis by auto
qed

lemma fetch_no_patch:
  assumes g: "Get rm w app kind = (w1, r)"
      and p: "PatchCall obj base \<in> set (trace w1)" "PatchCall obj base \<notin> set (trace w)"
  shows False
  using Get_trace [OF g] p by auto

lemma handleImageRepository_baseline:
  assumes "handleImageRepository lib rm w app = (w', app', e)"
      and "PatchCall obj base \<in> set (trace w')" "PatchCall obj base \<notin> set (trace w)"
  shows "\<exists>key. lookup w base key = Some base"
proof -
  obtain w1 r where g: "Get rm w app ImageRepositoryKind = (w1, r)"
    by (cases "Get rm w app ImageRepositoryKind")
  show ?thesis
    using assms g
    by (auto simp: handleImageRepository_def Let_def
             split: sum.splits Object.splits if_splits prod.splits
             dest: fetch_no_patch)
       (frule (3) stage_patch_baseline, auto)+
qed

lemma handleImagePolicy_baseline:
  assumes "handleImagePolicy rm w app = (w', app', e)"
      and "PatchCall obj base \<in> set (trace w')" "PatchCall obj base \<notin> set (trace w)"
  shows "\<exists>key. lookup w base key = Some base"
proof -
  obtain w1 r where g: "Get rm w app ImagePolicyKind = (w1, r)"
    by (cases "Get rm w app ImagePolicyKind")
  show ?thesis
    using assms g
    by (auto simp: handleImagePolicy_def Let_def
             split: sum.splits Object.splits if_splits prod.splits
             dest: fetch_no_patch)
       (frule (3) stage_patch_baseline, auto)+
qed

lemma handleHelmRepository_baseline:
  assumes "handleHelmRepository lib rm w app = (w', app', e)"
      and "PatchCall obj base \<in> set (trace w')" "PatchCall obj base \<notin> set (trace w)"
  shows "\<exists>key. lookup w base key = Some base"
proof -
  obtain w1 r where g: "Get rm w app HelmRepositoryKind = (w1, r)"
    by (cases "Get rm w app HelmRepositoryKind")
  show ?thesis
    using assms g
    by (auto simp: handleHelmRepository_def Let_def
             split: sum.splits Object.splits if_splits prod.splits
             dest: fetch_no_patch)
       (frule (3) stage_patch_baseline, auto)+
qed

lemma handleHelmRelease_baseline:
  assumes "handleHelmRelease rm w app = (w', app', e)"
      and "PatchCall obj base \<in> set (trace w')" "PatchCall obj base \<notin> set (trace w)"
  shows "\<exists>key. lookup w base key = Some base"
proof -
  obtain w1 r where g: "Get rm w app HelmReleaseKind = (w1, r)"
    by (cases "Get rm w app HelmReleaseKind")
  show ?thesis
    using assms g
    by (auto simp: handleHelmRelease_def Let_def
             split: sum.splits Object.splits if_splits prod.splits
             dest: fetch_no_patch)
       (frule (3) stage_patch_baseline, auto)+
qed

section \<open>Facts about conditions\<close>

lemma find_Some_holds: "find P xs = Some x \<Longrightarrow> P x"
  by (induction xs) (auto split: if_splits)

lemma conditions_Get_type: "conditions_Get conds t = Some c \<Longrightarrow> cond_Type c = t"
  by (auto simp: conditions_Get_def dest: find_Some_holds)

lemma conditions_Get_replace_first:
  "\<exists>e \<in> set conds. cond_Type e = cond_Type c \<Longrightarrow>
   conditions_Get (replace_first c conds) (cond_Type c) = Some c"
  by (induction conds) (auto simp: conditions_Get_def)

lemma conditions_Get_append_new:
  "\<forall>e \<in> set conds. cond_Type e \<noteq> cond_Type c \<Longrightarrow>
   conditions_Get (conds @ [c]) (cond_Type c) = Some c"
  by (induction conds) (auto simp: conditions_Get_def)

lemma conditions_Get_Set:
  "conditions_Get (conditions_Set conds (Some c)) (cond_Type c) = Some c"
  using conditions_Get_replace_first [of conds c] conditions_Get_append_new [of conds c]
  by (auto simp: conditions_Set_def)

lemma mirror_Ready:
  "mirror from_conds ReadyCondition (Some (False, ProgressingReason, ''HelmRelease is not ready''))
     = Some (case conditions_Get from_conds ReadyCondition of Some c \<Rightarrow> c | None \<Rightarrow> not_ready)"
  by (auto simp: mirror_def not_ready_def Let_def split: option.splits
           dest: conditions_Get_type)

lemma SetMirror_Ready:
  "conditions_Get (Conditions (Status
      (SetMirror app ReadyCondition from_conds
         (Some (False, ProgressingReason, ''HelmRelease is not ready''))))) ReadyCondition
     = Some (case conditions_Get from_conds ReadyCondition of Some c \<Rightarrow> c | None \<Rightarrow> not_ready)"
proof -
  let ?c = "case conditions_Get from_conds ReadyCondition of Some c \<Rightarrow> c | None \<Rightarrow> not_ready"
  have t: "cond_Type ?c = ReadyCondition"
    by (auto simp: not_ready_def split: option.splits dest: conditions_Get_type)
  from conditions_Get_Set [of "Conditions (Status app)" ?c] t
  show ?thesis by (simp add: SetMirror_def mirror_Ready)
qed

lemma Get_fresh_HelmRelease:
  assumes "Get rm w app HelmReleaseKind = (w1, Inr mr)" and "mr_patch mr = None"
      and "mr_Object mr = HelmReleaseObj x"
  shows "hrel_Conditions (hrel_Status x) = []"
proof -
  obtain wg eg og where
    c: "client_Get w (Namespace (app_Meta app), HelmReleaseName app)
          (HelmReleaseObj empty_HelmRelease) = (wg, eg, og)"
    by (cases "client_Get w (Namespace (app_Meta app), HelmReleaseName app)
                 (HelmReleaseObj empty_HelmRelease)")
  from assms c have nf: "eg = Some NotFound"
    by (auto simp: Get_def init_for_kind_def kind_defs IgnoreNotFound_def Let_def
             split: option.splits if_splits sum.splits)
  with c have og: "og = HelmReleaseObj empty_HelmRelease"
    by (simp add: client_Get_NotFound)
  from assms c nf og show ?thesis
    by (auto simp: Get_def init_for_kind_def kind_defs IgnoreNotFound_def Let_def
                   SetControllerReference_def SetName_def SetNamespace_def empty_HelmRelease_def
             split: option.splits if_splits sum.splits)
qed

section \<open>Naming\<close>

text \<open>
  C7.  The four names are functions of the parent alone.  Image source and version
  selector are both called \<open>name-chart\<close>, the release has the parent's name, and the
  chart source is named by the resolved repository without a leading \<open>oci://\<close> and with
  every \<open>.\<close> and \<open>/\<close> turned into \<open>-\<close>.  Two parents of the same name (of the same
  resolved repository) get the same names.
\<close>

theorem naming_policy:
  "ImageRepositoryName app = Name (app_Meta app) @ ''-chart''
   \<and> ImagePolicyName app = Name (app_Meta app) @ ''-chart''
   \<and> HelmReleaseName app = Name (app_Meta app)
   \<and> HelmRepositoryName app =
       map (\<lambda>c. if c = CHR ''.'' \<or> c = CHR ''/'' then CHR ''-'' else c)
         (if take (length ''oci://'') (st_Repository (status_Chart (Status app))) = ''oci://''
          then drop (length ''oci://'') (st_Repository (status_Chart (Status app)))
          else st_Repository (status_Chart (Status app)))
   \<and> (Name (app_Meta app) = Name (app_Meta app2) \<longrightarrow>
        ImageRepositoryName app = ImageRepositoryName app2
        \<and> ImagePolicyName app = ImagePolicyName app2
        \<and> HelmReleaseName app = HelmReleaseName app2)
   \<and> (st_Repository (status_Chart (Status app)) = st_Repository (status_Chart (Status app2)) \<longrightarrow>
        HelmRepositoryName app = HelmRepositoryName app2)"
  by (simp add: ImageRepositoryName_def ImagePolicyName_def HelmReleaseName_def
        HelmRepositoryName_def Replacer_Replace_def strings_TrimPrefix_def strings_HasPrefix_def)

text \<open>The names of the example parent, before and after the repository is resolved.\<close>

theorem naming_policy_witness:
  "Name (app_Meta demo_app) = Name (app_Meta new_app)
   \<and> st_Repository (status_Chart (Status demo_app)) = st_Repository (status_Chart (Status new_app))
   \<and> ImageRepositoryName demo_app = ''demo-chart''
   \<and> ImagePolicyName new_app = ''demo-chart''
   \<and> HelmReleaseName new_app = ''demo''
   \<and> HelmRepositoryName resolved_app = ''ghcr-io-org''"
  using naming_policy [of demo_app new_app] naming_policy [of resolved_app resolved_app]
  by (simp add: demo_app_def new_app_def resolved_app_def ImageRepositoryName_def
        ImagePolicyName_def HelmReleaseName_def HelmRepositoryName_def Replacer_Replace_def
        strings_TrimPrefix_def strings_HasPrefix_def)

section \<open>Provider inference\<close>

text \<open>
  A host that merely contains \<open>gcr.io\<close>, without ending in any of the three registry
  domains, is tagged \<open>gcp\<close>, not \<open>generic\<close>.
\<close>

theorem provider_counterexample:
  "url_Parse plainlib ''oci://gcr.io.example.com/app''
     = Inr \<lparr>Scheme = ''oci'', Host = ''gcr.io.example.com''\<rparr>
   \<and> \<not> strings_HasSuffix ''gcr.io.example.com'' ''amazonaws.com''
   \<and> \<not> strings_HasSuffix ''gcr.io.example.com'' ''azurecr.io''
   \<and> \<not> strings_HasSuffix ''gcr.io.example.com'' ''gcr.io''
   \<and> providerFromURL plainlib ''oci://gcr.io.example.com/app'' = Inr ''gcp''
   \<and> ''gcp'' \<noteq> ''generic''"
  by (simp add: plainlib_def plain_url_Parse_def strings_Split_def strings_HasPrefix_def
        strings_HasSuffix_def providerFromURL_def)

text \<open>
  C6, as the code has it.  A locator that does not parse gives the parser's error.
  Otherwise the tag is decided by containment in the host, tried in the order
  \<open>amazonaws.com\<close>, \<open>azurecr.io\<close>, \<open>gcr.io\<close>, and is \<open>generic\<close> when none occurs.  So
  a host ending in \<open>amazonaws.com\<close> is \<open>aws\<close>; a host ending in \<open>azurecr.io\<close> is
  \<open>azure\<close> unless an earlier domain occurs in it, and likewise \<open>gcr.io\<close> and \<open>gcp\<close>.
  The four literal locators of the specification get \<open>aws\<close>, \<open>azure\<close>, \<open>gcp\<close> and
  \<open>generic\<close>.
\<close>

theorem provider_by_containment:
  "(\<forall>err. url_Parse lib s = Inl err \<longrightarrow> providerFromURL lib s = Inl err)
   \<and> (\<forall>u. url_Parse lib s = Inr u \<longrightarrow>
         providerFromURL lib s =
           Inr (if strings_Contains (Host u) ''amazonaws.com'' then ''aws''
                else if strings_Contains (Host u) ''azurecr.io'' then ''azure''
                else if strings_Contains (Host u) ''gcr.io'' then ''gcp''
                else ''generic'')
         \<and> (strings_HasSuffix (Host u) ''amazonaws.com'' \<longrightarrow> providerFromURL lib s = Inr ''aws'')
         \<and> (strings_HasSuffix (Host u) ''azurecr.io'' \<and> \<not> strings_Contains (Host u) ''amazonaws.com''
              \<longrightarrow> providerFromURL lib s = Inr ''azure'')
         \<and> (strings_HasSuffix (Host u) ''gcr.io'' \<and> \<not> strings_Contains (Host u) ''amazonaws.com''
              \<and> \<not> strings_Contains (Host u) ''azurecr.io''
              \<longrightarrow> providerFromURL lib s = Inr ''gcp''))
   \<and> providerFromURL plainlib ''oci://123456789.dkr.ecr.us-east-1.amazonaws.com/app'' = Inr ''aws''
   \<and> providerFromURL plainlib ''oci://myregistry.azurecr.io/app'' = Inr ''azure''
   \<and> providerFromURL plainlib ''oci://gcr.io/project/app'' = Inr ''gcp''
   \<and> providerFromURL plainlib ''oci://ghcr.io/org/app'' = Inr ''generic''"
proof -
  have lit: "providerFromURL plainlib ''oci://123456789.dkr.ecr.us-east-1.amazonaws.com/app'' = Inr ''aws''"
    "providerFromURL plainlib ''oci://myregistry.azurecr.io/app'' = Inr ''azure''"
    "providerFromURL plainlib ''oci://gcr.io/project/app'' = Inr ''gcp''"
    "providerFromURL plainlib ''oci://ghcr.io/org/app'' = Inr ''generic''"
    by (simp_all add: plainlib_def plain_url_Parse_def strings_Split_def strings_HasPrefix_def
          providerFromURL_def)
  show ?thesis
    using lit by (auto simp: providerFromURL_def dest: strings_Contains_suffix)
qed

text \<open>An Azure registry host, and a parser that rejects its input.\<close>

theorem provider_by_containment_witness:
  "url_Parse plainlib ''oci://myregistry.azurecr.io/app''
     = Inr \<lparr>Scheme = ''oci'', Host = ''myregistry.azurecr.io''\<rparr>
   \<and> strings_HasSuffix ''myregistry.azurecr.io'' ''azurecr.io''
   \<and> \<not> strings_Contains ''myregistry.azurecr.io'' ''amazonaws.com''
   \<and> providerFromURL plainlib ''oci://myregistry.azurecr.io/app'' = Inr ''azure''
   \<and> url_Parse (plainlib\<lparr>url_Parse := \<lambda>s. Inl (UrlParseError s)\<rparr>) ''%'' = Inl (UrlParseError ''%'')
   \<and> providerFromURL (plainlib\<lparr>url_Parse := \<lambda>s. Inl (UrlParseError s)\<rparr>) ''%'' = Inl (UrlParseError ''%'')"
  using provider_by_containment [of plainlib "''oci://myregistry.azurecr.io/app''"]
    provider_by_containment [of "plainlib\<lparr>url_Parse := \<lambda>s. Inl (UrlParseError s)\<rparr>" "''%''"]
  by (simp add: plainlib_def plain_url_Parse_def strings_Split_def strings_HasPrefix_def
        strings_HasSuffix_def)

section \<open>The resource manager\<close>

text \<open>
  C10.  For a kind other than the four child kinds, \<open>Get\<close> returns no record and the
  error \<open>unsupported kind\<close>, and the cluster is as before: no request was sent.
\<close>

theorem Get_unsupported_kind:
  assumes "kind \<noteq> ImageRepositoryKind" and "kind \<noteq> ImagePolicyKind"
      and "kind \<noteq> HelmRepositoryKind" and "kind \<noteq> HelmReleaseKind"
  shows "Get rm w app kind = (w, Inl (UnsupportedKind kind))"
  using assms by (simp add: Get_def init_for_kind_def)

text \<open>A fetch of kind \<open>Deployment\<close> in the example cluster.\<close>

theorem Get_unsupported_kind_witness:
  "''Deployment'' \<noteq> ImageRepositoryKind \<and> ''Deployment'' \<noteq> ImagePolicyKind
   \<and> ''Deployment'' \<noteq> HelmRepositoryKind \<and> ''Deployment'' \<noteq> HelmReleaseKind
   \<and> Get (ResourceManager_of demo_r) demo_cluster demo_app ''Deployment''
       = (demo_cluster, Inl (UnsupportedKind ''Deployment''))"
  using Get_unsupported_kind [of "''Deployment''" "ResourceManager_of demo_r" demo_cluster demo_app]
  by (simp add: ImageRepositoryKind_def ImagePolicyKind_def HelmRepositoryKind_def HelmReleaseKind_def)

text \<open>
  C2.  \<open>Update\<close> sends exactly one request: a create when the record has no patch, and
  otherwise a patch against the recorded baseline.  A record returned by \<open>Get\<close> has no
  patch exactly when the cluster holds no object under the key; when it holds one, the
  baseline is that stored object, and it equals the record's object as \<open>Get\<close> returns
  it, before any handler has changed a field.  Accordingly the baseline of every patch
  a stage sends is an object exactly as the cluster stored it when the stage began.
\<close>

theorem create_or_patch_from_baseline:
  "(\<forall>w' e. Update rm w res = (w', e) \<longrightarrow>
       trace w' = trace w @ [case mr_patch res of
                               None \<Rightarrow> CreateCall (mr_Object res)
                             | Some base \<Rightarrow> PatchCall (mr_Object res) base])
   \<and> (\<forall>w1 mr obj0 name.
         init_for_kind app kind = Some (obj0, name) \<and> Get rm w app kind = (w1, Inr mr) \<longrightarrow>
         (case lookup w obj0 (Namespace (app_Meta app), name) of
            None \<Rightarrow> mr_patch mr = None
          | Some stored \<Rightarrow> mr_patch mr = Some stored \<and> mr_Object mr = stored))
   \<and> (\<forall>w' app' e obj base.
         (handleImageRepository lib rm w app = (w', app', e)
          \<or> handleImagePolicy rm w app = (w', app', e)
          \<or> handleHelmRepository lib rm w app = (w', app', e)
          \<or> handleHelmRelease rm w app = (w', app', e))
         \<and> PatchCall obj base \<in> set (trace w') \<and> PatchCall obj base \<notin> set (trace w) \<longrightarrow>
         (\<exists>key. lookup w base key = Some base))"
proof (intro conjI allI impI)
  fix w' e assume "Update rm w res = (w', e)"
  then show "trace w' = trace w @ [case mr_patch res of
                               None \<Rightarrow> CreateCall (mr_Object res)
                             | Some base \<Rightarrow> PatchCall (mr_Object res) base]"
    by (rule Update_trace)
next
  fix w1 mr obj0 name
  assume a: "init_for_kind app kind = Some (obj0, name) \<and> Get rm w app kind = (w1, Inr mr)"
  then have "Get rm w app kind = (w1, Inr mr)" by simp
  from Get_record [OF this] a
  show "case lookup w obj0 (Namespace (app_Meta app), name) of
            None \<Rightarrow> mr_patch mr = None
          | Some stored \<Rightarrow> mr_patch mr = Some stored \<and> mr_Object mr = stored"
    by (auto split: option.splits)
next
  fix w' app' e obj base
  assume a: "(handleImageRepository lib rm w app = (w', app', e)
          \<or> handleImagePolicy rm w app = (w', app', e)
          \<or> handleHelmRepository lib rm w app = (w', app', e)
          \<or> handleHelmRelease rm w app = (w', app', e))
         \<and> PatchCall obj base \<in> set (trace w') \<and> PatchCall obj base \<notin> set (trace w)"
  then have p: "PatchCall obj base \<in> set (trace w')" "PatchCall obj base \<notin> set (trace w)"
    by simp_all
  from a consider
      "handleImageRepository lib rm w app = (w', app', e)"
    | "handleImagePolicy rm w app = (w', app', e)"
    | "handleHelmRepository lib rm w app = (w', app', e)"
    | "handleHelmRelease rm w app = (w', app', e)"
    by blast
  then show "\<exists>key. lookup w base key = Some base"
  proof cases
    case 1
    from handleImageRepository_baseline [OF this p] show ?thesis .
  next
    case 2
    from handleImagePolicy_baseline [OF this p] show ?thesis .
  next
    case 3
    from handleHelmRepository_baseline [OF this p] show ?thesis .
  next
    case 4
    from handleHelmRelease_baseline [OF this p] show ?thesis .
  qed
qed

text \<open>
  A version selector that is absent and then present in the example cluster, and the
  request sent for a record without and with a baseline.
\<close>

theorem create_or_patch_from_baseline_witness:
  "init_for_kind demo_app ImagePolicyKind = Some (ImagePolicyObj empty_ImagePolicy, ''demo-chart'')
   \<and> lookup demo_cluster (ImagePolicyObj empty_ImagePolicy) (''default'', ''demo-chart'') = None
   \<and> snd (Get (ResourceManager_of demo_r) demo_cluster demo_app ImagePolicyKind)
       = Inr \<lparr>mr_Object = ImagePolicyObj
                (empty_ImagePolicy\<lparr>ip_Meta := empty_meta
                   \<lparr>Name := ''demo-chart'', Namespace := ''default'',
                    OwnerReferences := [controller_ref demo_app]\<rparr>\<rparr>),
              mr_patch = None\<rparr>
   \<and> lookup (policy_cluster ''ghcr.io/org/app:6.7.1'') (ImagePolicyObj empty_ImagePolicy)
         (''default'', ''demo-chart'') = Some (ImagePolicyObj (demo_policy ''ghcr.io/org/app:6.7.1''))
   \<and> snd (Get (ResourceManager_of demo_r) (policy_cluster ''ghcr.io/org/app:6.7.1'') demo_app
             ImagePolicyKind)
       = Inr \<lparr>mr_Object = ImagePolicyObj (demo_policy ''ghcr.io/org/app:6.7.1''),
              mr_patch = Some (ImagePolicyObj (demo_policy ''ghcr.io/org/app:6.7.1''))\<rparr>
   \<and> trace (fst (Update (ResourceManager_of demo_r) demo_cluster
                    \<lparr>mr_Object = ImagePolicyObj empty_ImagePolicy, mr_patch = None\<rparr>))
       = [CreateCall (ImagePolicyObj empty_ImagePolicy)]
   \<and> trace (fst (Update (ResourceManager_of demo_r) (policy_cluster ''ghcr.io/org/app:6.7.1'')
                    \<lparr>mr_Object = ImagePolicyObj (demo_policy ''ghcr.io/org/app:6.7.2''),
                     mr_patch = Some (ImagePolicyObj (demo_policy ''ghcr.io/org/app:6.7.1''))\<rparr>))
       = [PatchCall (ImagePolicyObj (demo_policy ''ghcr.io/org/app:6.7.2''))
                    (ImagePolicyObj (demo_policy ''ghcr.io/org/app:6.7.1''))]
   \<and> trace (fst (handleImagePolicy (ResourceManager_of demo_r)
                    (policy_cluster ''ghcr.io/org/app:6.7.1'') demo_app))
       = [GetCall ImagePolicyKind (''default'', ''demo-chart''),
          PatchCall (ImagePolicyObj (demo_policy ''ghcr.io/org/app:6.7.1''))
                    (ImagePolicyObj (demo_policy ''ghcr.io/org/app:6.7.1''))]"
proof -
  let ?rm = "ResourceManager_of demo_r"
  let ?pc = "policy_cluster ''ghcr.io/org/app:6.7.1''"
  let ?new = "\<lparr>mr_Object = ImagePolicyObj empty_ImagePolicy, mr_patch = None\<rparr>"
  let ?old = "\<lparr>mr_Object = ImagePolicyObj (demo_policy ''ghcr.io/org/app:6.7.2''),
               mr_patch = Some (ImagePolicyObj (demo_policy ''ghcr.io/org/app:6.7.1''))\<rparr>"
  note u1 = create_or_patch_from_baseline [of ?rm demo_cluster ?new demo_app ImagePolicyKind plainlib,
      THEN conjunct1, rule_format, of "fst (Update ?rm demo_cluster ?new)" "snd (Update ?rm demo_cluster ?new)"]
  note u2 = create_or_patch_from_baseline [of ?rm ?pc ?old demo_app ImagePolicyKind plainlib,
      THEN conjunct1, rule_format, of "fst (Update ?rm ?pc ?old)" "snd (Update ?rm ?pc ?old)"]
  note g1 = create_or_patch_from_baseline [of ?rm demo_cluster ?new demo_app ImagePolicyKind plainlib,
      THEN conjunct2, THEN conjunct1, rule_format,
      of "ImagePolicyObj empty_ImagePolicy" "''demo-chart''"
         "fst (Get ?rm demo_cluster demo_app ImagePolicyKind)"
         "projr (snd (Get ?rm demo_cluster demo_app ImagePolicyKind))"]
  note g2 = create_or_patch_from_baseline [of ?rm ?pc ?new demo_app ImagePolicyKind plainlib,
      THEN conjunct2, THEN conjunct1, rule_format,
      of "ImagePolicyObj empty_ImagePolicy" "''demo-chart''"
         "fst (Get ?rm ?pc demo_app ImagePolicyKind)"
         "projr (snd (Get ?rm ?pc demo_app ImagePolicyKind))"]
  have e1: "trace demo_cluster = []" "trace ?pc = []"
    by (simp_all add: example_defs)
  have e2: "init_for_kind demo_app ImagePolicyKind = Some (ImagePolicyObj empty_ImagePolicy, ''demo-chart'')"
    by (simp add: model_defs)
  have e3: "lookup demo_cluster (ImagePolicyObj empty_ImagePolicy) (''default'', ''demo-chart'') = None"
    "lookup ?pc (ImagePolicyObj empty_ImagePolicy) (''default'', ''demo-chart'')
       = Some (ImagePolicyObj (demo_policy ''ghcr.io/org/app:6.7.1''))"
    by (simp_all add: example_defs)
  have e4: "Get ?rm demo_cluster demo_app ImagePolicyKind
       = (sent demo_cluster (GetCall ImagePolicyKind (''default'', ''demo-chart'')),
          Inr \<lparr>mr_Object = ImagePolicyObj
                (empty_ImagePolicy\<lparr>ip_Meta := empty_meta
                   \<lparr>Name := ''demo-chart'', Namespace := ''default'',
                    OwnerReferences := [controller_ref demo_app]\<rparr>\<rparr>),
              mr_patch = None\<rparr>)"
    by (simp add: model_defs Let_def)
  have e5: "Get ?rm ?pc demo_app ImagePolicyKind
       = (sent ?pc (GetCall ImagePolicyKind (''default'', ''demo-chart'')),
          Inr \<lparr>mr_Object = ImagePolicyObj (demo_policy ''ghcr.io/org/app:6.7.1''),
              mr_patch = Some (ImagePolicyObj (demo_policy ''ghcr.io/org/app:6.7.1''))\<rparr>)"
    by (simp add: model_defs Let_def)
  have e6: "trace (fst (handleImagePolicy ?rm ?pc demo_app))
       = [GetCall ImagePolicyKind (''default'', ''demo-chart''),
          PatchCall (ImagePolicyObj (demo_policy ''ghcr.io/org/app:6.7.1''))
                    (ImagePolicyObj (demo_policy ''ghcr.io/org/app:6.7.1''))]"
    by (simp add: model_defs Let_def)
  show ?thesis
    using u1 u2 g1 g2 e1 e2 e3 e4 e5 e6 by simp
qed

section \<open>Ownership of the children\<close>

text \<open>
  The chart source is named after the repository, so the example parent finds the one
  that the parent \<open>other\<close> created.  The stage patches it and succeeds; the object it
  commits has no controller reference to the example parent, and the stored object is
  still owned by \<open>other\<close> alone.
\<close>

theorem shared_chart_source_counterexample:
  "snd (handleHelmRepository plainlib (ResourceManager_of demo_r) shared_cluster resolved_app)
     = (resolved_app, None)
   \<and> trace (fst (handleHelmRepository plainlib (ResourceManager_of demo_r) shared_cluster resolved_app))
       = [GetCall HelmRepositoryKind (''default'', ''ghcr-io-org''),
          PatchCall (HelmRepositoryObj shared_repository) (HelmRepositoryObj shared_repository)]
   \<and> \<not> controlled_by (HelmRepositoryObj shared_repository) resolved_app
   \<and> helmRepositories
        (fst (handleHelmRepository plainlib (ResourceManager_of demo_r) shared_cluster resolved_app))
        (''default'', ''ghcr-io-org'') = Some shared_repository"
  by (simp add: model_defs shared_repository_def shared_cluster_def resolved_app_def Let_def)

text \<open>
  C8, as the code has it.  When \<open>Get\<close> finds no object under the key, the record it
  returns has no patch and its object already carries the controller reference to the
  parent.  Every create the four stages send therefore carries that reference.  An
  object that was found is patched with the owner references it was fetched with: the
  stages add none.
\<close>

theorem created_children_are_owned:
  "(\<forall>w1 mr obj0 name.
       init_for_kind app kind = Some (obj0, name)
       \<and> lookup w obj0 (Namespace (app_Meta app), name) = None
       \<and> Get rm w app kind = (w1, Inr mr)
       \<longrightarrow> mr_patch mr = None \<and> controlled_by (mr_Object mr) app)
   \<and> (\<forall>w' app' res err. Reconcile_stages lib r w app = (w', app', res, err) \<longrightarrow>
         (\<exists>cs. trace w' = trace w @ cs \<and> (\<forall>c \<in> set cs. commit_ok app c)))"
proof (intro conjI allI impI)
  fix w1 mr obj0 name
  assume a: "init_for_kind app kind = Some (obj0, name)
       \<and> lookup w obj0 (Namespace (app_Meta app), name) = None
       \<and> Get rm w app kind = (w1, Inr mr)"
  then have "Get rm w app kind = (w1, Inr mr)" by simp
  from Get_record [OF this] a
  show "mr_patch mr = None" "controlled_by (mr_Object mr) app" by auto
next
  fix w' app' res err
  assume "Reconcile_stages lib r w app = (w', app', res, err)"
  from Reconcile_stages_calls [OF this]
  show "\<exists>cs. trace w' = trace w @ cs \<and> (\<forall>c \<in> set cs. commit_ok app c)" by simp
qed

text \<open>
  The release of the example parent, absent from the example cluster, and the requests
  of the stages there.
\<close>

theorem created_children_are_owned_witness:
  "init_for_kind demo_app HelmReleaseKind = Some (HelmReleaseObj empty_HelmRelease, ''demo'')
   \<and> lookup demo_cluster (HelmReleaseObj empty_HelmRelease) (''default'', ''demo'') = None
   \<and> snd (Get (ResourceManager_of demo_r) demo_cluster demo_app HelmReleaseKind)
       = Inr \<lparr>mr_Object = HelmReleaseObj
                (empty_HelmRelease\<lparr>hrel_Meta := empty_meta
                   \<lparr>Name := ''demo'', Namespace := ''default'',
                    OwnerReferences := [controller_ref demo_app]\<rparr>\<rparr>),
              mr_patch = None\<rparr>
   \<and> controlled_by (HelmReleaseObj
                (empty_HelmRelease\<lparr>hrel_Meta := empty_meta
                   \<lparr>Name := ''demo'', Namespace := ''default'',
                    OwnerReferences := [controller_ref demo_app]\<rparr>\<rparr>)) demo_app
   \<and> map request_of (trace (fst (Reconcile_stages plainlib demo_r demo_cluster demo_app)))
       = [(''get'', ''ImageRepository''), (''create'', ''ImageRepository''),
          (''get'', ''ImagePolicy''), (''create'', ''ImagePolicy''),
          (''get'', ''HelmRepository''), (''create'', ''HelmRepository'')]
   \<and> list_all (commit_ok demo_app) (trace (fst (Reconcile_stages plainlib demo_r demo_cluster demo_app)))"
proof -
  let ?rm = "ResourceManager_of demo_r"
  let ?g = "Get ?rm demo_cluster demo_app HelmReleaseKind"
  let ?s = "Reconcile_stages plainlib demo_r demo_cluster demo_app"
  note a = created_children_are_owned [of demo_app HelmReleaseKind demo_cluster ?rm plainlib demo_r,
      THEN conjunct1, rule_format, of "HelmReleaseObj empty_HelmRelease" "''demo''" "fst ?g" "projr (snd ?g)"]
  note b = created_children_are_owned [of demo_app HelmReleaseKind demo_cluster ?rm plainlib demo_r,
      THEN conjunct2, rule_format, of "fst ?s" "fst (snd ?s)" "fst (snd (snd ?s))" "snd (snd (snd ?s))"]
  have e1: "init_for_kind demo_app HelmReleaseKind = Some (HelmReleaseObj empty_HelmRelease, ''demo'')"
    by (simp add: model_defs)
  have e2: "lookup demo_cluster (HelmReleaseObj empty_HelmRelease) (''default'', ''demo'') = None"
    by (simp add: example_defs)
  have e3: "?g = (sent demo_cluster (GetCall HelmReleaseKind (''default'', ''demo'')),
       Inr \<lparr>mr_Object = HelmReleaseObj
                (empty_HelmRelease\<lparr>hrel_Meta := empty_meta
                   \<lparr>Name := ''demo'', Namespace := ''default'',
                    OwnerReferences := [controller_ref demo_app]\<rparr>\<rparr>),
              mr_patch = None\<rparr>)"
    by (simp add: model_defs Let_def)
  have e4: "map request_of (trace (fst ?s))
       = [(''get'', ''ImageRepository''), (''create'', ''ImageRepository''),
          (''get'', ''ImagePolicy''), (''create'', ''ImagePolicy''),
          (''get'', ''HelmRepository''), (''create'', ''HelmRepository'')]"
    by (simp add: model_defs Let_def)
  have e5: "trace demo_cluster = []" by (simp add: example_defs)
  from b e5 have e6: "list_all (commit_ok demo_app) (trace (fst ?s))"
    by (auto simp: list_all_iff)
  have ns: "Namespace (app_Meta demo_app) = ''default''" by (simp add: demo_app_def)
  from a e1 e2 e3 ns have e7: "controlled_by (HelmReleaseObj
                (empty_HelmRelease\<lparr>hrel_Meta := empty_meta
                   \<lparr>Name := ''demo'', Namespace := ''default'',
                    OwnerReferences := [controller_ref demo_app]\<rparr>\<rparr>)) demo_app"
    by simp
  show ?thesis using e1 e2 e3 e4 e6 e7 by simp
qed

section \<open>The gate before the release\<close>

text \<open>
  In the example cluster the version selector does not exist yet, so no version is
  resolved after the first two stages; the chart source is fetched and created all the
  same.  When that fetch fails, the invocation returns the error of the fetch.
\<close>

theorem gate_counterexample:
  "snd (snd (stages_1_2 plainlib demo_r demo_cluster demo_app)) = None
   \<and> st_Version (status_Chart (Status (fst (snd (stages_1_2 plainlib demo_r demo_cluster demo_app))))) = []
   \<and> map request_of (trace (fst (Reconcile plainlib demo_r demo_cluster (''default'', ''demo''))))
       = [(''get'', ''FluxApp''), (''get'', ''ImageRepository''), (''create'', ''ImageRepository''),
          (''get'', ''ImagePolicy''), (''create'', ''ImagePolicy''),
          (''get'', ''HelmRepository''), (''create'', ''HelmRepository''),
          (''patch status'', ''FluxApp'')]
   \<and> snd (snd (stages_1_2 plainlib demo_r (failing_Get HelmRepositoryKind demo_cluster) demo_app)) = None
   \<and> st_Version (status_Chart (Status (fst (snd
         (stages_1_2 plainlib demo_r (failing_Get HelmRepositoryKind demo_cluster) demo_app))))) = []
   \<and> snd (Reconcile plainlib demo_r (failing_Get HelmRepositoryKind demo_cluster) (''default'', ''demo''))
       = (\<lparr>Requeue = False, RequeueAfter = 0\<rparr>, Some (ApiError ''timeout''))"
  by (simp add: model_defs stages_1_2_def failing_Get_def Let_def)

text \<open>
  C1, as the code has it.  The check of the three resolved fields is the first thing
  the release stage does, after the chart-source stage.  In an invocation whose first
  two stages succeed and leave repository, name or version empty, the chart-source
  stage is attempted: its fetch is sent.  If that stage succeeds, the release stage
  sends nothing and answers with the requeue sentinel, the invocation returns
  \<open>Requeue = true\<close> with a nil error, and the only request after the chart-source
  stage is the patch of the parent's status.
\<close>

theorem gate_after_chart_source:
  assumes enter: "Reconcile_enter w0 req = Some (w, app)"
      and s1: "handleImageRepository lib (ResourceManager_of r) w app = (w1, app1, None)"
      and s2: "handleImagePolicy (ResourceManager_of r) w1 app1 = (w2, app2, None)"
      and gate: "st_Repository (status_Chart (Status app2)) = []
                 \<or> st_Name (status_Chart (Status app2)) = []
                 \<or> st_Version (status_Chart (Status app2)) = []"
      and s3: "handleHelmRepository lib (ResourceManager_of r) w2 app2 = (w3, app3, e3)"
  shows "(\<exists>cs. trace w3 = trace w2 @
            GetCall HelmRepositoryKind (Namespace (app_Meta app2), HelmRepositoryName app2) # cs)
         \<and> (e3 = None \<longrightarrow>
              handleHelmRelease (ResourceManager_of r) w3 app3 = (w3, app3, Some ErrRequeue)
              \<and> Reconcile lib r w0 req
                  = (fst (r_Status_Patch w3 app3 app), \<lparr>Requeue = True, RequeueAfter = 0\<rparr>, None)
              \<and> trace (fst (Reconcile lib r w0 req)) = trace w3 @ [PatchStatusCall app3 app])"
proof -
  from handleHelmRepository_app [OF s3] have a3: "app3 = app2" .
  have first: "\<exists>cs. trace w3 = trace w2 @
            GetCall HelmRepositoryKind (Namespace (app_Meta app2), HelmRepositoryName app2) # cs"
    by (rule handleHelmRepository_first_call [OF s3])
  have g: "handleHelmRelease (ResourceManager_of r) w3 app3 = (w3, app3, Some ErrRequeue)"
    using gate a3 by (simp add: handleHelmRelease_gate)
  have rest: "e3 = None \<longrightarrow> Reconcile lib r w0 req
                  = (fst (r_Status_Patch w3 app3 app), \<lparr>Requeue = True, RequeueAfter = 0\<rparr>, None)"
  proof
    assume "e3 = None"
    with s1 s2 s3 g
    have "Reconcile_stages lib r w app = (w3, app3, \<lparr>Requeue = True, RequeueAfter = 0\<rparr>, None)"
      by (simp add: Reconcile_stages_def stage_failed_def errors_Is_errRequeue_def)
    with Reconcile_enter_stages [OF enter, of lib r]
    show "Reconcile lib r w0 req
            = (fst (r_Status_Patch w3 app3 app), \<lparr>Requeue = True, RequeueAfter = 0\<rparr>, None)"
      by simp
  qed
  from first g rest show ?thesis by (simp add: r_Status_Patch_trace)
qed

text \<open>An invocation on the example cluster, from the fetch of the parent on.\<close>

theorem gate_after_chart_source_witness:
  "Reconcile_enter demo_cluster (''default'', ''demo'')
     = Some (sent demo_cluster (GetAppCall (''default'', ''demo'')), demo_app)
   \<and> snd (snd (stages_1_2 plainlib demo_r
                  (sent demo_cluster (GetAppCall (''default'', ''demo''))) demo_app)) = None
   \<and> st_Version (status_Chart (Status (fst (snd (stages_1_2 plainlib demo_r
                  (sent demo_cluster (GetAppCall (''default'', ''demo''))) demo_app))))) = []
   \<and> snd (snd (Reconcile_stages plainlib demo_r
                  (sent demo_cluster (GetAppCall (''default'', ''demo''))) demo_app))
       = (\<lparr>Requeue = True, RequeueAfter = 0\<rparr>, None)
   \<and> snd (Reconcile plainlib demo_r demo_cluster (''default'', ''demo''))
       = (\<lparr>Requeue = True, RequeueAfter = 0\<rparr>, None)
   \<and> map request_of (trace (fst (Reconcile plainlib demo_r demo_cluster (''default'', ''demo''))))
       = [(''get'', ''FluxApp''), (''get'', ''ImageRepository''), (''create'', ''ImageRepository''),
          (''get'', ''ImagePolicy''), (''create'', ''ImagePolicy''),
          (''get'', ''HelmRepository''), (''create'', ''HelmRepository''),
          (''patch status'', ''FluxApp'')]"
proof -
  let ?rm = "ResourceManager_of demo_r"
  let ?w = "sent demo_cluster (GetAppCall (''default'', ''demo''))"
  let ?s1 = "handleImageRepository plainlib ?rm ?w demo_app"
  let ?s2 = "handleImagePolicy ?rm (fst ?s1) (fst (snd ?s1))"
  let ?s3 = "handleHelmRepository plainlib ?rm (fst ?s2) (fst (snd ?s2))"
  have enter: "Reconcile_enter demo_cluster (''default'', ''demo'') = Some (?w, demo_app)"
    by (simp add: model_defs Reconcile_enter_def Let_def)
  have s1: "?s1 = (fst ?s1, fst (snd ?s1), None)"
    by (simp add: model_defs Let_def)
  have s2: "?s2 = (fst ?s2, fst (snd ?s2), None)"
    by (simp add: model_defs Let_def)
  have gate: "st_Repository (status_Chart (Status (fst (snd ?s2)))) = []
                 \<or> st_Name (status_Chart (Status (fst (snd ?s2)))) = []
                 \<or> st_Version (status_Chart (Status (fst (snd ?s2)))) = []"
    by (simp add: model_defs Let_def)
  have s3: "?s3 = (fst ?s3, fst (snd ?s3), None)"
    by (simp add: model_defs Let_def)
  note t = gate_after_chart_source [of demo_cluster "(''default'', ''demo'')" ?w demo_app plainlib
      demo_r "fst ?s1" "fst (snd ?s1)" "fst ?s2" "fst (snd ?s2)" "fst ?s3" "fst (snd ?s3)" None,
      OF enter s1 s2 gate s3]
  have rest: "snd (snd (stages_1_2 plainlib demo_r ?w demo_app)) = None"
    "st_Version (status_Chart (Status (fst (snd (stages_1_2 plainlib demo_r ?w demo_app))))) = []"
    "snd (snd (Reconcile_stages plainlib demo_r ?w demo_app)) = (\<lparr>Requeue = True, RequeueAfter = 0\<rparr>, None)"
    "map request_of (trace (fst (Reconcile plainlib demo_r demo_cluster (''default'', ''demo''))))
       = [(''get'', ''FluxApp''), (''get'', ''ImageRepository''), (''create'', ''ImageRepository''),
          (''get'', ''ImagePolicy''), (''create'', ''ImagePolicy''),
          (''get'', ''HelmRepository''), (''create'', ''HelmRepository''),
          (''patch status'', ''FluxApp'')]"
    by (simp_all add: model_defs stages_1_2_def Let_def)
  from t have "snd (Reconcile plainlib demo_r demo_cluster (''default'', ''demo''))
       = (\<lparr>Requeue = True, RequeueAfter = 0\<rparr>, None)"
    by simp
  with enter rest show ?thesis by simp
qed

section \<open>The image-source stage\<close>

text \<open>
  In a cluster that rejects every create, the image source does not exist before the
  stage, its create fails, and it does not exist after the stage; the parent's
  repository and name are written all the same.
\<close>

theorem image_source_counterexample:
  "lookup (failing_Create demo_cluster) (ImageRepositoryObj empty_ImageRepository)
      (''default'', ''demo-chart'') = None
   \<and> snd (snd (handleImageRepository plainlib (ResourceManager_of demo_r)
                  (failing_Create demo_cluster) demo_app)) = Some (ApiError ''rejected'')
   \<and> lookup (fst (handleImageRepository plainlib (ResourceManager_of demo_r)
                    (failing_Create demo_cluster) demo_app))
        (ImageRepositoryObj empty_ImageRepository) (''default'', ''demo-chart'') = None
   \<and> st_Repository (status_Chart (Status demo_app)) = []
   \<and> st_Name (status_Chart (Status demo_app)) = []
   \<and> st_Repository (status_Chart (Status (fst (snd (handleImageRepository plainlib
        (ResourceManager_of demo_r) (failing_Create demo_cluster) demo_app))))) = ''oci://ghcr.io/org''
   \<and> st_Name (status_Chart (Status (fst (snd (handleImageRepository plainlib
        (ResourceManager_of demo_r) (failing_Create demo_cluster) demo_app))))) = ''app''"
  by (simp add: model_defs failing_Create_def Let_def)

text \<open>
  C3, as the code has it.  The stage writes the parent's resolved repository and name
  before the commit, from the image locator it has just put into the child's spec: the
  parent's source URL after \<open>://\<close>.  Once the fetch and the provider inference have
  succeeded and the URL has split in two with a non-empty locator, the repository is
  \<open>oci://\<close> followed by \<open>path.Dir\<close> of the locator and the name is \<open>path.Base\<close> of
  it, whatever the child reports and whatever the commit answers.  In every other case
  the parent is left as it was.
\<close>

theorem image_source_status_from_spec:
  assumes "handleImageRepository lib rm w app = (w', app', e)"
  shows "app' =
           (if \<not> isl (snd (Get rm w app ImageRepositoryKind))
               \<and> \<not> isl (providerFromURL lib (Repository (spec_Chart (Spec app))))
               \<and> length (strings_Split (Repository (spec_Chart (Spec app))) ''://'') = 2
               \<and> strings_Split (Repository (spec_Chart (Spec app))) ''://'' ! 1 \<noteq> []
            then with_chart app
                   (''oci://'' @ path_Dir lib (strings_Split (Repository (spec_Chart (Spec app))) ''://'' ! 1))
                   (path_Base lib (strings_Split (Repository (spec_Chart (Spec app))) ''://'' ! 1))
            else app)"
proof -
  obtain w1 r where g: "Get rm w app ImageRepositoryKind = (w1, r)"
    by (cases "Get rm w app ImageRepositoryKind")
  show ?thesis
  proof (cases r)
    case (Inl err)
    with assms g show ?thesis by (simp add: handleImageRepository_def)
  next
    case (Inr mr)
    with g Get_ImageRepository_object [of rm w app w1 mr]
    obtain x where x: "mr_Object mr = ImageRepositoryObj x" by auto
    from assms g Inr x show ?thesis
      by (auto simp: handleImageRepository_def with_chart_def Let_def
               split: sum.splits if_splits prod.splits)
  qed
qed

text \<open>The stage in the example cluster, and in one where the fetch of the child fails.\<close>

theorem image_source_status_from_spec_witness:
  "\<not> isl (snd (Get (ResourceManager_of demo_r) demo_cluster demo_app ImageRepositoryKind))
   \<and> \<not> isl (providerFromURL plainlib ''oci://ghcr.io/org/app'')
   \<and> strings_Split ''oci://ghcr.io/org/app'' ''://'' = [''oci'', ''ghcr.io/org/app'']
   \<and> fst (snd (handleImageRepository plainlib (ResourceManager_of demo_r) demo_cluster demo_app))
       = with_chart demo_app ''oci://ghcr.io/org'' ''app''
   \<and> isl (snd (Get (ResourceManager_of demo_r) (failing_Get ImageRepositoryKind demo_cluster)
                  demo_app ImageRepositoryKind))
   \<and> fst (snd (handleImageRepository plainlib (ResourceManager_of demo_r)
                  (failing_Get ImageRepositoryKind demo_cluster) demo_app)) = demo_app"
proof -
  let ?rm = "ResourceManager_of demo_r"
  let ?h = "handleImageRepository plainlib ?rm demo_cluster demo_app"
  let ?fw = "failing_Get ImageRepositoryKind demo_cluster"
  let ?hf = "handleImageRepository plainlib ?rm ?fw demo_app"
  note a = image_source_status_from_spec [of plainlib ?rm demo_cluster demo_app
      "fst ?h" "fst (snd ?h)" "snd (snd ?h)"]
  note b = image_source_status_from_spec [of plainlib ?rm ?fw demo_app
      "fst ?hf" "fst (snd ?hf)" "snd (snd ?hf)"]
  have e1: "\<not> isl (snd (Get ?rm demo_cluster demo_app ImageRepositoryKind))"
    "isl (snd (Get ?rm ?fw demo_app ImageRepositoryKind))"
    by (simp_all add: model_defs failing_Get_def Let_def)
  have e2: "\<not> isl (providerFromURL plainlib ''oci://ghcr.io/org/app'')"
    "strings_Split ''oci://ghcr.io/org/app'' ''://'' = [''oci'', ''ghcr.io/org/app'']"
    "path_Dir plainlib ''ghcr.io/org/app'' = ''ghcr.io/org''"
    "path_Base plainlib ''ghcr.io/org/app'' = ''app''"
    "Repository (spec_Chart (Spec demo_app)) = ''oci://ghcr.io/org/app''"
    by (simp_all add: model_defs Let_def)
  from a b e1 e2 show ?thesis by simp
qed

section \<open>The version-selector stage\<close>

text \<open>
  C4.  Take an invocation that has reached the stages and whose image-source stage has
  succeeded, and let the fetched version selector report a non-empty latest image.  If
  splitting it at \<open>:\<close> gives exactly two pieces, the stage stores the second one as the
  parent's resolved version.  With any other number of pieces the stage fails with
  \<open>invalid image reference\<close> right after its fetch, \<open>Reconcile\<close> returns that error
  with an empty result, and the only request sent after the fetch is the patch of the
  parent's status: nothing is committed for the version selector, the chart source or
  the release.
\<close>

theorem malformed_reference_is_terminal:
  assumes enter: "Reconcile_enter w0 req = Some (w, app)"
      and s1: "handleImageRepository lib (ResourceManager_of r) w app = (w1, app1, None)"
      and g: "Get (ResourceManager_of r) w1 app1 ImagePolicyKind = (wg, Inr mr)"
      and obj: "mr_Object mr = ImagePolicyObj imagePolicy"
      and latest: "LatestImage (ip_Status imagePolicy) \<noteq> []"
  shows "(length (strings_Split (LatestImage (ip_Status imagePolicy)) '':'') = 2 \<longrightarrow>
            fst (snd (handleImagePolicy (ResourceManager_of r) w1 app1))
              = with_version app1 (strings_Split (LatestImage (ip_Status imagePolicy)) '':'' ! 1))
         \<and> (length (strings_Split (LatestImage (ip_Status imagePolicy)) '':'') \<noteq> 2 \<longrightarrow>
            handleImagePolicy (ResourceManager_of r) w1 app1
              = (wg, app1, Some (InvalidImageReference (LatestImage (ip_Status imagePolicy))))
            \<and> Reconcile lib r w0 req
              = (fst (r_Status_Patch wg app1 app), no_Result,
                 Some (InvalidImageReference (LatestImage (ip_Status imagePolicy))))
            \<and> trace (fst (Reconcile lib r w0 req))
              = trace w1 @ [GetCall ImagePolicyKind (Namespace (app_Meta app1), ImagePolicyName app1),
                            PatchStatusCall app1 app])"
proof (intro conjI impI)
  assume two: "length (strings_Split (LatestImage (ip_Status imagePolicy)) '':'') = 2"
  with g obj latest
  show "fst (snd (handleImagePolicy (ResourceManager_of r) w1 app1))
          = with_version app1 (strings_Split (LatestImage (ip_Status imagePolicy)) '':'' ! 1)"
    by (simp add: handleImagePolicy_def with_version_def Let_def split: prod.splits)
next
  assume bad: "length (strings_Split (LatestImage (ip_Status imagePolicy)) '':'') \<noteq> 2"
  with g obj latest
  show h: "handleImagePolicy (ResourceManager_of r) w1 app1
          = (wg, app1, Some (InvalidImageReference (LatestImage (ip_Status imagePolicy))))"
    by (simp add: handleImagePolicy_def Let_def)
  with s1
  have "Reconcile_stages lib r w app
          = (wg, app1, no_Result, Some (InvalidImageReference (LatestImage (ip_Status imagePolicy))))"
    by (simp add: Reconcile_stages_def stage_failed_def errors_Is_errRequeue_def)
  with Reconcile_enter_stages [OF enter, of lib r]
  show r: "Reconcile lib r w0 req
          = (fst (r_Status_Patch wg app1 app), no_Result,
             Some (InvalidImageReference (LatestImage (ip_Status imagePolicy))))"
    by simp
  from g Get_sent_ImagePolicy [of "ResourceManager_of r" w1 app1]
  have "trace wg = trace w1 @ [GetCall ImagePolicyKind (Namespace (app_Meta app1), ImagePolicyName app1)]"
    by simp
  with r show "trace (fst (Reconcile lib r w0 req))
              = trace w1 @ [GetCall ImagePolicyKind (Namespace (app_Meta app1), ImagePolicyName app1),
                            PatchStatusCall app1 app]"
    by (simp add: r_Status_Patch_trace)
qed

text \<open>
  A selector reporting \<open>ghcr.io/org/app:6.7.1\<close>, and one reporting a reference with a
  registry port, which has three pieces.
\<close>

theorem malformed_reference_is_terminal_witness:
  "strings_Split ''ghcr.io/org/app:6.7.1'' '':'' = [''ghcr.io/org/app'', ''6.7.1'']
   \<and> st_Version (status_Chart (Status (fst (snd (stages_1_2 plainlib demo_r
         (sent (policy_cluster ''ghcr.io/org/app:6.7.1'') (GetAppCall (''default'', ''demo'')))
         demo_app))))) = ''6.7.1''
   \<and> strings_Split ''localhost:5000/org/app:6.7.1'' '':'' = [''localhost'', ''5000/org/app'', ''6.7.1'']
   \<and> snd (Reconcile plainlib demo_r (policy_cluster ''localhost:5000/org/app:6.7.1'')
             (''default'', ''demo''))
       = (\<lparr>Requeue = False, RequeueAfter = 0\<rparr>,
          Some (InvalidImageReference ''localhost:5000/org/app:6.7.1''))
   \<and> map request_of (trace (fst (Reconcile plainlib demo_r
         (policy_cluster ''localhost:5000/org/app:6.7.1'') (''default'', ''demo''))))
       = [(''get'', ''FluxApp''), (''get'', ''ImageRepository''), (''create'', ''ImageRepository''),
          (''get'', ''ImagePolicy''), (''patch status'', ''FluxApp'')]"
proof -
  let ?rm = "ResourceManager_of demo_r"
  let ?key = "(''default'', ''demo'')"
  let ?good = "''ghcr.io/org/app:6.7.1''"
  let ?bad = "''localhost:5000/org/app:6.7.1''"
  let ?wg = "sent (policy_cluster ?good) (GetAppCall ?key)"
  let ?wb = "sent (policy_cluster ?bad) (GetAppCall ?key)"
  let ?g1 = "handleImageRepository plainlib ?rm ?wg demo_app"
  let ?b1 = "handleImageRepository plainlib ?rm ?wb demo_app"
  let ?gg = "Get ?rm (fst ?g1) (fst (snd ?g1)) ImagePolicyKind"
  let ?bg = "Get ?rm (fst ?b1) (fst (snd ?b1)) ImagePolicyKind"
  have enter: "Reconcile_enter (policy_cluster ?good) ?key = Some (?wg, demo_app)"
    "Reconcile_enter (policy_cluster ?bad) ?key = Some (?wb, demo_app)"
    by (simp_all add: model_defs Reconcile_enter_def Let_def)
  have s1: "?g1 = (fst ?g1, fst (snd ?g1), None)" "?b1 = (fst ?b1, fst (snd ?b1), None)"
    by (simp_all add: model_defs Let_def)
  have g: "?gg = (fst ?gg, Inr \<lparr>mr_Object = ImagePolicyObj (demo_policy ?good),
                               mr_patch = Some (ImagePolicyObj (demo_policy ?good))\<rparr>)"
    "?bg = (fst ?bg, Inr \<lparr>mr_Object = ImagePolicyObj (demo_policy ?bad),
                          mr_patch = Some (ImagePolicyObj (demo_policy ?bad))\<rparr>)"
    by (simp_all add: model_defs Let_def)
  have latest: "LatestImage (ip_Status (demo_policy ?good)) \<noteq> []"
    "LatestImage (ip_Status (demo_policy ?bad)) \<noteq> []"
    by (simp_all add: demo_policy_def)
  note tg = malformed_reference_is_terminal [of "policy_cluster ?good" ?key ?wg demo_app plainlib demo_r
      "fst ?g1" "fst (snd ?g1)" "fst ?gg" _ "demo_policy ?good",
      OF enter(1) s1(1) g(1) _ latest(1), simplified]
  note tb = malformed_reference_is_terminal [of "policy_cluster ?bad" ?key ?wb demo_app plainlib demo_r
      "fst ?b1" "fst (snd ?b1)" "fst ?bg" _ "demo_policy ?bad",
      OF enter(2) s1(2) g(2) _ latest(2), simplified]
  have split: "strings_Split ?good '':'' = [''ghcr.io/org/app'', ''6.7.1'']"
    "strings_Split ?bad '':'' = [''localhost'', ''5000/org/app'', ''6.7.1'']"
    by (simp_all add: string_defs)
  have li: "LatestImage (ip_Status (demo_policy ?good)) = ?good"
    "LatestImage (ip_Status (demo_policy ?bad)) = ?bad"
    by (simp_all add: demo_policy_def)
  have st: "stages_1_2 plainlib demo_r ?wg demo_app = handleImagePolicy ?rm (fst ?g1) (fst (snd ?g1))"
  proof -
    have "snd (snd ?g1) = None" using s1(1) by (metis snd_conv)
    then show ?thesis by (auto simp: stages_1_2_def split: prod.splits)
  qed
  from tg split li st
  have v: "st_Version (status_Chart (Status (fst (snd (stages_1_2 plainlib demo_r ?wg demo_app))))) = ''6.7.1''"
    by (simp add: with_version_def)
  from tb split li
  have e: "snd (Reconcile plainlib demo_r (policy_cluster ?bad) ?key)
       = (\<lparr>Requeue = False, RequeueAfter = 0\<rparr>, Some (InvalidImageReference ?bad))"
    by (simp add: no_Result_def)
  have t: "map request_of (trace (fst (Reconcile plainlib demo_r (policy_cluster ?bad) ?key)))
       = [(''get'', ''FluxApp''), (''get'', ''ImageRepository''), (''create'', ''ImageRepository''),
          (''get'', ''ImagePolicy''), (''patch status'', ''FluxApp'')]"
    by (simp add: model_defs Let_def)
  from split v e t show ?thesis by simp
qed

section \<open>Finalizer registration\<close>

text \<open>
  A parent that is not being deleted and has no finalizer yet: the invocation updates
  the parent and goes on to fetch and create the children.
\<close>

theorem finalizer_counterexample:
  "fluxApps new_cluster (''default'', ''demo'') = Some new_app
   \<and> DeletionTimestamp (app_Meta new_app) = None
   \<and> \<not> ContainsFinalizer new_app finalizer
   \<and> map request_of (trace (fst (Reconcile plainlib demo_r new_cluster (''default'', ''demo''))))
       = [(''get'', ''FluxApp''), (''update'', ''FluxApp''),
          (''get'', ''ImageRepository''), (''create'', ''ImageRepository''),
          (''get'', ''ImagePolicy''), (''create'', ''ImagePolicy''),
          (''get'', ''HelmRepository''), (''create'', ''HelmRepository''),
          (''patch status'', ''FluxApp'')]"
  by (simp add: model_defs new_app_def new_cluster_def Let_def)

text \<open>
  C5, as the code has it.  For a parent with no deletion timestamp and no finalizer,
  \<open>Reconcile\<close> adds the finalizer and sends an update of the parent.  If the update
  fails, the invocation returns its error and sends nothing more.  If it succeeds, the
  stored parent has the finalizer, and the same invocation runs the stages on the
  updated parent, the fetch of the image source being its next request, and patches the
  status at the end.
\<close>

theorem finalizer_then_stages:
  assumes get: "r_Get w req = (w1, Inr app)"
      and live: "DeletionTimestamp (app_Meta app) = None"
      and unregistered: "\<not> ContainsFinalizer app finalizer"
      and upd: "r_Update w1 (AddFinalizer app finalizer) = (w2, e)"
  shows "ContainsFinalizer (AddFinalizer app finalizer) finalizer
         \<and> trace w2 = trace w @ [GetAppCall req, UpdateAppCall (AddFinalizer app finalizer)]
         \<and> (\<forall>err. e = Some err \<longrightarrow> Reconcile lib r w req = (w2, no_Result, Some err))
         \<and> (e = None \<longrightarrow>
              (\<exists>stored. fluxApps w2 (app_key app) = Some stored \<and> ContainsFinalizer stored finalizer)
              \<and> Reconcile lib r w req
                  = (case Reconcile_stages lib r w2 (AddFinalizer app finalizer) of
                       (w3, app3, res, err) \<Rightarrow>
                         (fst (r_Status_Patch w3 app3 (AddFinalizer app finalizer)), res, err))
              \<and> (\<exists>cs. trace (fst (Reconcile lib r w req)) = trace w2 @
                    GetCall ImageRepositoryKind (Namespace (app_Meta app), ImageRepositoryName app) # cs))"
proof (intro conjI allI impI)
  show "ContainsFinalizer (AddFinalizer app finalizer) finalizer"
    by (simp add: ContainsFinalizer_def AddFinalizer_def)
  from r_Get_trace [OF get] r_Update_trace [OF upd]
  show "trace w2 = trace w @ [GetAppCall req, UpdateAppCall (AddFinalizer app finalizer)]"
    by simp
next
  fix err assume "e = Some err"
  with get live unregistered upd
  show "Reconcile lib r w req = (w2, no_Result, Some err)"
    by (simp add: Reconcile_def)
next
  assume ok: "e = None"
  have meta: "app_Meta (AddFinalizer app finalizer)
                = (app_Meta app)\<lparr>Finalizers := Finalizers (app_Meta app) @ [finalizer]\<rparr>"
    using unregistered by (simp add: AddFinalizer_def ContainsFinalizer_def)
  have key: "app_key (AddFinalizer app finalizer) = app_key app"
    by (simp add: app_key_def AddFinalizer_def)
  from upd ok live meta r_Update_stored [of w1 "AddFinalizer app finalizer" w2] key
  show "\<exists>stored. fluxApps w2 (app_key app) = Some stored \<and> ContainsFinalizer stored finalizer"
    by (auto simp: ContainsFinalizer_def)
  from get live unregistered upd ok
  have enter: "Reconcile_enter w req = Some (w2, AddFinalizer app finalizer)"
    by (simp add: Reconcile_enter_def)
  from Reconcile_enter_stages [OF enter, of lib r]
  show run: "Reconcile lib r w req
                  = (case Reconcile_stages lib r w2 (AddFinalizer app finalizer) of
                       (w3, app3, res, err) \<Rightarrow>
                         (fst (r_Status_Patch w3 app3 (AddFinalizer app finalizer)), res, err))" .
  obtain w3 app3 res err where
    st: "Reconcile_stages lib r w2 (AddFinalizer app finalizer) = (w3, app3, res, err)"
    by (cases "Reconcile_stages lib r w2 (AddFinalizer app finalizer)") auto
  from Reconcile_stages_first_call [OF st] meta
  obtain cs where "trace w3 = trace w2 @
      GetCall ImageRepositoryKind (Namespace (app_Meta app), ImageRepositoryName app) # cs"
    by (auto simp: ImageRepositoryName_def)
  with run st
  show "\<exists>cs. trace (fst (Reconcile lib r w req)) = trace w2 @
          GetCall ImageRepositoryKind (Namespace (app_Meta app), ImageRepositoryName app) # cs"
    by (simp add: r_Status_Patch_trace)
qed

text \<open>
  The new parent of the example: the update succeeds and the stages follow; where the
  update meets a conflict, the invocation ends with that error after two requests.
\<close>

theorem finalizer_then_stages_witness:
  "r_Get new_cluster (''default'', ''demo'')
     = (sent new_cluster (GetAppCall (''default'', ''demo'')), Inr new_app)
   \<and> DeletionTimestamp (app_Meta new_app) = None
   \<and> \<not> ContainsFinalizer new_app finalizer
   \<and> snd (r_Update (sent new_cluster (GetAppCall (''default'', ''demo'')))
             (AddFinalizer new_app finalizer)) = None
   \<and> AddFinalizer new_app finalizer = demo_app
   \<and> fluxApps (fst (r_Update (sent new_cluster (GetAppCall (''default'', ''demo'')))
                       (AddFinalizer new_app finalizer))) (''default'', ''demo'') = Some demo_app
   \<and> take 4 (map request_of (trace (fst (Reconcile plainlib demo_r new_cluster (''default'', ''demo'')))))
       = [(''get'', ''FluxApp''), (''update'', ''FluxApp''),
          (''get'', ''ImageRepository''), (''create'', ''ImageRepository'')]
   \<and> snd (r_Update (sent (failing_Update new_cluster) (GetAppCall (''default'', ''demo'')))
             (AddFinalizer new_app finalizer)) = Some (ApiError ''conflict'')
   \<and> snd (Reconcile plainlib demo_r (failing_Update new_cluster) (''default'', ''demo''))
       = (no_Result, Some (ApiError ''conflict''))
   \<and> map request_of (trace (fst (Reconcile plainlib demo_r (failing_Update new_cluster)
                                     (''default'', ''demo''))))
       = [(''get'', ''FluxApp''), (''update'', ''FluxApp'')]"
proof -
  let ?key = "(''default'', ''demo'')"
  let ?w1 = "sent new_cluster (GetAppCall ?key)"
  let ?u = "r_Update ?w1 (AddFinalizer new_app finalizer)"
  let ?f1 = "sent (failing_Update new_cluster) (GetAppCall ?key)"
  let ?fu = "r_Update ?f1 (AddFinalizer new_app finalizer)"
  have get: "r_Get new_cluster ?key = (?w1, Inr new_app)"
    "r_Get (failing_Update new_cluster) ?key = (?f1, Inr new_app)"
    by (simp_all add: model_defs new_app_def new_cluster_def failing_Update_def Let_def)
  have live: "DeletionTimestamp (app_Meta new_app) = None"
    by (simp add: model_defs new_app_def)
  have unregistered: "\<not> ContainsFinalizer new_app finalizer"
    by (simp add: model_defs new_app_def)
  have upd: "?u = (fst ?u, None)" "?fu = (fst ?fu, Some (ApiError ''conflict''))"
    by (simp_all add: model_defs new_app_def new_cluster_def failing_Update_def Let_def)
  note t = finalizer_then_stages [of new_cluster ?key ?w1 new_app "fst ?u" None plainlib demo_r,
      OF get(1) live unregistered upd(1)]
  note tf = finalizer_then_stages [of "failing_Update new_cluster" ?key ?f1 new_app "fst ?fu"
      "Some (ApiError ''conflict'')" plainlib demo_r, OF get(2) live unregistered upd(2)]
  have add: "AddFinalizer new_app finalizer = demo_app"
    by (simp add: model_defs new_app_def)
  have stored: "fluxApps (fst ?u) ?key = Some demo_app"
    by (simp add: model_defs new_app_def new_cluster_def Let_def)
  have reqs: "take 4 (map request_of (trace (fst (Reconcile plainlib demo_r new_cluster ?key))))
       = [(''get'', ''FluxApp''), (''update'', ''FluxApp''),
          (''get'', ''ImageRepository''), (''create'', ''ImageRepository'')]"
    by (simp add: model_defs new_app_def new_cluster_def Let_def)
  have u2: "snd ?u = None" "snd ?fu = Some (ApiError ''conflict'')"
    using upd by (metis snd_conv)+
  from t have t': "ContainsFinalizer (AddFinalizer new_app finalizer) finalizer" by simp
  from tf have f1: "snd (Reconcile plainlib demo_r (failing_Update new_cluster) ?key)
       = (no_Result, Some (ApiError ''conflict''))"
    by simp
  have tr0: "trace (failing_Update new_cluster) = []"
    by (simp add: model_defs new_cluster_def failing_Update_def)
  from tf tr0 have f2: "map request_of (trace (fst (Reconcile plainlib demo_r
         (failing_Update new_cluster) ?key))) = [(''get'', ''FluxApp''), (''update'', ''FluxApp'')]"
    by simp
  from t' get(1) live unregistered u2 add stored reqs f1 f2 show ?thesis by simp
qed

section \<open>The Ready condition\<close>

text \<open>
  With repository, name and version resolved, a failing fetch of the release ends the
  stage before any condition is set: the parent, which had no \<open>Ready\<close> condition, still
  has none, in the stage and in what the invocation stores at the end.
\<close>

theorem ready_condition_counterexample:
  "st_Repository (status_Chart (Status resolved_app)) \<noteq> []
   \<and> st_Name (status_Chart (Status resolved_app)) \<noteq> []
   \<and> st_Version (status_Chart (Status resolved_app)) \<noteq> []
   \<and> handleHelmRelease (ResourceManager_of demo_r) (failing_Get HelmReleaseKind demo_cluster) resolved_app
       = (sent (failing_Get HelmReleaseKind demo_cluster) (GetCall HelmReleaseKind (''default'', ''demo'')),
          resolved_app, Some (ApiError ''timeout''))
   \<and> conditions_Get (Conditions (Status resolved_app)) ReadyCondition = None
   \<and> map request_of (trace (fst (Reconcile plainlib demo_r
         (failing_Get HelmReleaseKind (policy_cluster ''ghcr.io/org/app:6.7.1'')) (''default'', ''demo''))))
       = [(''get'', ''FluxApp''), (''get'', ''ImageRepository''), (''create'', ''ImageRepository''),
          (''get'', ''ImagePolicy''), (''patch'', ''ImagePolicy''),
          (''get'', ''HelmRepository''), (''create'', ''HelmRepository''),
          (''get'', ''HelmRelease''), (''patch status'', ''FluxApp'')]
   \<and> snd (Reconcile plainlib demo_r
         (failing_Get HelmReleaseKind (policy_cluster ''ghcr.io/org/app:6.7.1'')) (''default'', ''demo''))
       = (\<lparr>Requeue = False, RequeueAfter = 0\<rparr>, Some (ApiError ''timeout''))
   \<and> fluxApps (fst (Reconcile plainlib demo_r
         (failing_Get HelmReleaseKind (policy_cluster ''ghcr.io/org/app:6.7.1'')) (''default'', ''demo'')))
         (''default'', ''demo'') = Some resolved_app"
  by (simp add: model_defs failing_Get_def resolved_app_def Let_def)

text \<open>
  C9, as the code has it.  When the three resolved fields are set and the fetch of the
  release returns a record (the release found, or found absent), the parent has a
  \<open>Ready\<close> condition after the stage, whatever the commit answers: the \<open>Ready\<close>
  condition of the fetched release when it has one, and otherwise \<open>False\<close> with reason
  \<open>Progressing\<close>.  A release that did not exist has no condition, so the parent gets
  the fallback.
\<close>

theorem ready_condition_after_release:
  assumes repo: "st_Repository (status_Chart (Status app)) \<noteq> []"
      and name: "st_Name (status_Chart (Status app)) \<noteq> []"
      and version: "st_Version (status_Chart (Status app)) \<noteq> []"
      and g: "Get rm w app HelmReleaseKind = (w1, Inr mr)"
  shows "\<exists>helmRelease.
           mr_Object mr = HelmReleaseObj helmRelease
           \<and> conditions_Get (Conditions (Status (fst (snd (handleHelmRelease rm w app))))) ReadyCondition
               = Some (case conditions_Get (hrel_Conditions (hrel_Status helmRelease)) ReadyCondition of
                         Some c \<Rightarrow> c
                       | None \<Rightarrow> not_ready)
           \<and> (mr_patch mr = None \<longrightarrow>
                conditions_Get (Conditions (Status (fst (snd (handleHelmRelease rm w app))))) ReadyCondition
                  = Some not_ready)"
proof -
  from Get_HelmRelease_object [OF g] obtain x where x: "mr_Object mr = HelmReleaseObj x" by auto
  from repo name version g x
  have h: "fst (snd (handleHelmRelease rm w app))
             = SetMirror app ReadyCondition (hrel_Conditions (hrel_Status x))
                 (Some (False, ProgressingReason, ''HelmRelease is not ready''))"
    by (simp add: handleHelmRelease_def Let_def split: prod.splits)
  have main: "conditions_Get (Conditions (Status (fst (snd (handleHelmRelease rm w app))))) ReadyCondition
               = Some (case conditions_Get (hrel_Conditions (hrel_Status x)) ReadyCondition of
                         Some c \<Rightarrow> c | None \<Rightarrow> not_ready)"
    by (simp add: h SetMirror_Ready)
  have fresh: "mr_patch mr = None \<longrightarrow> hrel_Conditions (hrel_Status x) = []"
    using Get_fresh_HelmRelease [OF g _ x] by simp
  from x main fresh show ?thesis by (auto simp: conditions_Get_def)
qed

text \<open>The resolved parent with no release in the cluster, and with an installed one.\<close>

theorem ready_condition_after_release_witness:
  "st_Repository (status_Chart (Status resolved_app)) \<noteq> []
   \<and> st_Name (status_Chart (Status resolved_app)) \<noteq> []
   \<and> st_Version (status_Chart (Status resolved_app)) \<noteq> []
   \<and> mr_patch (projr (snd (Get (ResourceManager_of demo_r) demo_cluster resolved_app HelmReleaseKind))) = None
   \<and> conditions_Get (Conditions (Status (fst (snd
         (handleHelmRelease (ResourceManager_of demo_r) demo_cluster resolved_app))))) ReadyCondition
       = Some not_ready
   \<and> snd (Get (ResourceManager_of demo_r) release_cluster resolved_app HelmReleaseKind)
       = Inr \<lparr>mr_Object = HelmReleaseObj demo_release, mr_patch = Some (HelmReleaseObj demo_release)\<rparr>
   \<and> conditions_Get (hrel_Conditions (hrel_Status demo_release)) ReadyCondition = Some installed
   \<and> conditions_Get (Conditions (Status (fst (snd
         (handleHelmRelease (ResourceManager_of demo_r) release_cluster resolved_app))))) ReadyCondition
       = Some installed"
proof -
  let ?rm = "ResourceManager_of demo_r"
  let ?g1 = "Get ?rm demo_cluster resolved_app HelmReleaseKind"
  let ?g2 = "Get ?rm release_cluster resolved_app HelmReleaseKind"
  have f: "st_Repository (status_Chart (Status resolved_app)) \<noteq> []"
    "st_Name (status_Chart (Status resolved_app)) \<noteq> []"
    "st_Version (status_Chart (Status resolved_app)) \<noteq> []"
    by (simp_all add: resolved_app_def)
  have g1: "?g1 = (fst ?g1, Inr (projr (snd ?g1)))"
    by (simp add: model_defs resolved_app_def Let_def)
  have p1: "mr_patch (projr (snd ?g1)) = None"
    by (simp add: model_defs resolved_app_def Let_def)
  have g2: "?g2 = (fst ?g2, Inr \<lparr>mr_Object = HelmReleaseObj demo_release,
                                  mr_patch = Some (HelmReleaseObj demo_release)\<rparr>)"
    by (simp add: model_defs resolved_app_def release_cluster_def Let_def)
  have c: "conditions_Get (hrel_Conditions (hrel_Status demo_release)) ReadyCondition = Some installed"
    by (simp add: demo_release_def installed_def condition_defs)
  from ready_condition_after_release [OF f g1] p1
  have a: "conditions_Get (Conditions (Status (fst (snd
         (handleHelmRelease ?rm demo_cluster resolved_app))))) ReadyCondition = Some not_ready"
    by auto
  from ready_condition_after_release [OF f g2] c
  have b: "conditions_Get (Conditions (Status (fst (snd
         (handleHelmRelease ?rm release_cluster resolved_app))))) ReadyCondition = Some installed"
    by auto
  have s2: "snd ?g2 = Inr \<lparr>mr_Object = HelmReleaseObj demo_release,
                            mr_patch = Some (HelmReleaseObj demo_release)\<rparr>"
    using g2 by (metis snd_conv)
  from f p1 a s2 c b show ?thesis by simp
qed

end
